theory Spec2Isabelle
  imports
    Complex_Main
    "HOL-Library.Word"
    "HOL-Library.AList"
    "HOL-Library.Char_ord"
    "HOL-Library.List_Lexorder"
begin

section \<open>The CCIP price service (ccipdb/price_service.go)\<close>

text \<open>
  The development embeds \<^verbatim>\<open>price_service.go\<close>: the unit converter, the two
  observers, the backward-compatibility resolver, the two database writers, the read API
  and the dynamic-configuration update. The injected collaborators (price getter, gas
  price estimator, price registry reader, off-ramp reader, ORM) are interfaces in the
  source; here each is a record of the answers its methods give.
\<close>

subsection \<open>Values, errors and Go maps\<close>

text \<open>
  \<^verbatim>\<open>cciptypes.Address\<close> is a Go string; Go compares strings byte by byte, a proper
  prefix being smaller, which is the lexicographic order on \<^typ>\<open>char list\<close>.
  A \<^verbatim>\<open>*big.Int\<close> is an \<^typ>\<open>int option\<close>, \<^term>\<open>None\<close> being the nil pointer.
\<close>

type_synonym Address = string

record TokenID =
  TokenAddress :: Address
  ChainSelector :: "64 word"

text \<open>
  A Go \<^verbatim>\<open>error\<close> is a message, or a message wrapped around another error
  (\<^verbatim>\<open>fmt.Errorf("...: %w", err)\<close>; the formatted arguments are left out).
  \<^term>\<open>Panic\<close> is not an error value of Go: it stands for a run-time panic (nil
  dereference, index out of range, division by zero), which unwinds through every caller.
  A collaborator reports its errors as plain messages; \<open>ext\<close> is its answer passed on
  as it is (\<^verbatim>\<open>return nil, err\<close>).
\<close>

datatype error = Msg string | Wrap string error | Panic

fun wrap :: "string \<Rightarrow> error \<Rightarrow> error" where
  "wrap s Panic = Panic"
| "wrap s e = Wrap s e"


text \<open>
  A Go map is an association list with pairwise distinct keys. Lookup is
  \<^const>\<open>map_of\<close>, assignment is \<^const>\<open>AList.update\<close>, and \<^verbatim>\<open>range\<close> visits the
  entries in the order of the list: Go leaves the order unspecified, and so does the
  model, since every ordering of the entries is a list of this type. A nil map reads as
  the empty one.
\<close>

type_synonym ('k, 'v) gomap = "('k \<times> 'v) list"

subsection \<open>Unit converter\<close>

text \<open>
  \<^verbatim>\<open>big.Int.Div\<close> is Euclidean division: the truncated quotient of \<^verbatim>\<open>QuoRem\<close>,
  moved by one when the remainder is negative; it panics on a zero divisor
  (\<^term>\<open>None\<close>). \<^verbatim>\<open>big.Int.Exp\<close> with a nil modulus is the power, and 1 for an
  exponent that is not positive.
\<close>

definition big_Quo :: "int \<Rightarrow> int \<Rightarrow> int" where
  "big_Quo x y = sgn x * sgn y * (\<bar>x\<bar> div \<bar>y\<bar>)"

definition big_Div :: "int \<Rightarrow> int \<Rightarrow> int option" where
  "big_Div x y =
     (if y = 0 then None
      else let q = big_Quo x y; r = x - q * y
           in if r < 0 then (if y < 0 then Some (q + 1) else Some (q - 1)) else Some q)"

definition big_Exp :: "int \<Rightarrow> int \<Rightarrow> int" where
  "big_Exp x y = (if y \<le> 0 then 1 else x ^ nat y)"

text \<open>
  \<^verbatim>\<open>calculateUsdPer1e18TokenAmount(price *big.Int, decimals uint8)\<close>: a nil price
  panics in \<^verbatim>\<open>Mul\<close>.
\<close>

definition calculateUsdPer1e18TokenAmount :: "int option \<Rightarrow> 8 word \<Rightarrow> error + int" where
  "calculateUsdPer1e18TokenAmount price decimals =
     (case price of
        None \<Rightarrow> Inl Panic
      | Some x \<Rightarrow>
          (let tmp = x * 1000000000000000000
           in case big_Div tmp (big_Exp 10 (uint decimals)) of
                None \<Rightarrow> Inl Panic
              | Some q \<Rightarrow> Inr q))"

subsection \<open>Collaborators and the service\<close>

text \<open>
  \<^verbatim>\<open>cciporm.GasPrice\<close> and \<^verbatim>\<open>cciporm.TokenPrice\<close>: the price is an
  \<^verbatim>\<open>*assets.Wei\<close>, a pointer to the same big integer.
\<close>

record orm_GasPrice =
  SourceChainSelector :: "64 word"
  GasPrice :: "int option"

record orm_TokenPrice =
  TokenAddr :: string
  TokenPrice :: "int option"

record ORM =
  GetGasPricesByDestChain :: "64 word \<Rightarrow> string + orm_GasPrice list"
  GetTokenPricesByDestChain :: "64 word \<Rightarrow> string + orm_TokenPrice list"
  UpsertGasPricesForDestChain :: "64 word \<Rightarrow> orm_GasPrice list \<Rightarrow> string option"
  UpsertTokenPricesForDestChain :: "64 word \<Rightarrow> orm_TokenPrice list \<Rightarrow> int \<Rightarrow> string option"

record AllTokensPriceGetter =
  GetTokenPricesUSD :: "TokenID list \<Rightarrow> string + (TokenID, int option) gomap"
  GetJobSpecTokenPricesUSD :: "string + (TokenID, int option) gomap"

record GasPriceEstimatorCommit =
  GetGasPrice :: "string + int option"
  DenoteInUSD :: "int \<Rightarrow> int option \<Rightarrow> string + int option"

record PriceRegistryReader =
  GetFeeTokens :: "string + Address list"
  GetTokensDecimals :: "Address list \<Rightarrow> string + 8 word list"

record OffRampReader =
  GetTokens :: "string + Address list"

text \<open>The upsert calls the service has made on the ORM, oldest first.\<close>

datatype upsert =
  UpsertGas "64 word" "orm_GasPrice list"
| UpsertToken "64 word" "orm_TokenPrice list" int

text \<open>
  The \<^verbatim>\<open>priceService\<close> struct, without logger, wait group, stop channel and mutex.
  An interface field that may be nil is an option. \<open>upserts\<close> is not a field of the
  source: it records the writes made through \<open>orm\<close>.
\<close>

record priceService =
  gasUpdateInterval :: int
  tokenUpdateInterval :: int
  orm :: ORM
  destChainSelector :: "64 word"
  sourceChainSelector :: "64 word"
  sourceNative :: Address
  priceGetter :: AllTokensPriceGetter
  offRampReader :: OffRampReader
  gasPriceEstimator :: "GasPriceEstimatorCommit option"
  destPriceRegistryReader :: "PriceRegistryReader option"
  upserts :: "upsert list"

subsection \<open>Destination tokens (package ccipcommon)\<close>

text \<open>
  Modelled from the spec: \<^verbatim>\<open>ccipcommon.GetDestinationTokens\<close> is not among the
  sources. It fetches "the canonical set of destination-chain fee and bridged token
  addresses from the off-ramp/registry readers" and fails when either reader fails; a
  method call on a nil registry reader panics.
\<close>

definition GetDestinationTokens ::
  "OffRampReader \<Rightarrow> PriceRegistryReader option \<Rightarrow> error + (Address list \<times> Address list)" where
  "GetDestinationTokens offRamp priceRegistry =
     (case priceRegistry of
        None \<Rightarrow> Inl Panic
      | Some reg \<Rightarrow>
          (case GetFeeTokens reg of
             Inl e \<Rightarrow> Inl (Msg e)
           | Inr fee \<Rightarrow>
               (case GetTokens offRamp of
                  Inl e \<Rightarrow> Inl (Msg e)
                | Inr bridged \<Rightarrow> Inr (fee, bridged))))"

text \<open>
  Modelled from the spec: \<^verbatim>\<open>ccipcommon.FlattenedAndSortedTokens\<close> is not among the
  sources. The fee and bridged lists are "flattened and deduped", and sorted as the name
  says.
\<close>

definition FlattenedAndSortedTokens :: "Address list \<Rightarrow> Address list \<Rightarrow> Address list" where
  "FlattenedAndSortedTokens fee bridged = sort (remdups (fee @ bridged))"

subsection \<open>Gas price observation\<close>

definition observeGasPriceUpdates :: "priceService \<Rightarrow> error + int option" where
  "observeGasPriceUpdates p =
     (case gasPriceEstimator p of
        None \<Rightarrow> Inl (Msg ''gasPriceEstimator is not set yet'')
      | Some est \<Rightarrow>
          (let sourceNativeTokenID =
                 \<lparr>TokenAddress = sourceNative p, ChainSelector = sourceChainSelector p\<rparr>
           in case GetTokenPricesUSD (priceGetter p) [sourceNativeTokenID] of
                Inl e \<Rightarrow> Inl (Wrap ''failed to fetch source native price'' (Msg e))
              | Inr rawTokenPricesUSD \<Rightarrow>
                  (case map_of rawTokenPricesUSD sourceNativeTokenID of
                     None \<Rightarrow> Inl (Msg ''missing source native price'')
                   | Some sourceNativePriceUSD \<Rightarrow>
                       (case GetGasPrice est of
                          Inl e \<Rightarrow> Inl (Msg e)
                        | Inr None \<Rightarrow> Inl (Msg ''missing gas price'')
                        | Inr (Some sourceGasPrice) \<Rightarrow>
                            (case DenoteInUSD est sourceGasPrice sourceNativePriceUSD of
                               Inl e \<Rightarrow> Inl (Msg e)
                             | Inr sourceGasPriceUSD \<Rightarrow> Inr sourceGasPriceUSD)))))"

subsection \<open>Backward-compatibility resolver\<close>

definition findMissingDestNativeTokenPrice ::
  "priceService \<Rightarrow> (TokenID, int option) gomap \<Rightarrow> error + int option" where
  "findMissingDestNativeTokenPrice p tokenPrices =
     (let destNativeTokenID =
            \<lparr>TokenAddress = sourceNative p, ChainSelector = destChainSelector p\<rparr>;
          sourceNativeTokenID =
            \<lparr>TokenAddress = sourceNative p, ChainSelector = sourceChainSelector p\<rparr>
      in if map_of tokenPrices destNativeTokenID \<noteq> None then Inr None
         else
           (case GetDestinationTokens (offRampReader p) (destPriceRegistryReader p) of
              Inl e \<Rightarrow> Inl (wrap ''get destination tokens'' e)
            | Inr (fee, bridged) \<Rightarrow>
                (let onchainDestTokens = FlattenedAndSortedTokens fee bridged
                 in if sourceNative p \<notin> set onchainDestTokens then Inr None
                    else
                      (case map_of tokenPrices sourceNativeTokenID of
                         None \<Rightarrow> Inr None
                       | Some None \<Rightarrow> Inr None
                       | Some (Some sourcePrice) \<Rightarrow> Inr (Some sourcePrice)))))"

text \<open>
  Lines 334 to 341 of \<^verbatim>\<open>observeTokenPriceUpdates\<close>: the resolver runs on the prices
  of the job spec, and a price it returns is stored under the destination-native TokenID.
\<close>

definition backfillDestNative ::
  "priceService \<Rightarrow> (TokenID, int option) gomap \<Rightarrow> error + (TokenID, int option) gomap" where
  "backfillDestNative p rawTokenPricesUSD =
     (case findMissingDestNativeTokenPrice p rawTokenPricesUSD of
        Inl e \<Rightarrow> Inl (wrap ''find missing dest native token price'' e)
      | Inr None \<Rightarrow> Inr rawTokenPricesUSD
      | Inr (Some missingDestNativePrice) \<Rightarrow>
          (let destNativeTokenID =
                 \<lparr>TokenAddress = sourceNative p, ChainSelector = destChainSelector p\<rparr>
           in Inr (AList.update destNativeTokenID (Some missingDestNativePrice)
                     rawTokenPricesUSD)))"

subsection \<open>Token price observation\<close>

text \<open>
  The loop of lines 372 to 379 over \<open>destTokens\<close>, \<open>i\<close> being the index of the
  current token. Reading \<open>destTokensDecimals[i]\<close> out of range panics; the arguments
  of the converter are evaluated before it is called.
\<close>

fun convertPrices ::
  "64 word \<Rightarrow> (TokenID, int option) gomap \<Rightarrow> 8 word list \<Rightarrow> Address list \<Rightarrow> nat \<Rightarrow>
     (Address, int option) gomap \<Rightarrow> error + (Address, int option) gomap" where
  "convertPrices dest rawTokenPricesUSD destTokensDecimals [] i tokenPricesUSDPer1e18 =
     Inr tokenPricesUSDPer1e18"
| "convertPrices dest rawTokenPricesUSD destTokensDecimals (token # rest) i tokenPricesUSDPer1e18 =
     (let tokenID = \<lparr>TokenAddress = token, ChainSelector = dest\<rparr>
      in case map_of rawTokenPricesUSD tokenID of
           None \<Rightarrow> Inl (Msg ''internal bug rawTokenPricesUSD'')
         | Some tokenPriceUSD \<Rightarrow>
             if i < length destTokensDecimals then
               (case calculateUsdPer1e18TokenAmount tokenPriceUSD (destTokensDecimals ! i) of
                  Inl e \<Rightarrow> Inl e
                | Inr v \<Rightarrow>
                    convertPrices dest rawTokenPricesUSD destTokensDecimals rest (Suc i)
                      (AList.update token (Some v) tokenPricesUSDPer1e18))
             else Inl Panic)"

text \<open>
  Lines 355 to 361: the addresses of the entries on the destination chain, in the order
  \<^verbatim>\<open>range\<close> visits them, then sorted. \<^verbatim>\<open>sort.Slice\<close> with \<open><\<close> on addresses is
  \<^const>\<open>sort\<close>: the order is linear, so the sorted arrangement of a list is unique.
\<close>

definition sortedDestTokens :: "64 word \<Rightarrow> (TokenID, int option) gomap \<Rightarrow> Address list" where
  "sortedDestTokens dest rawTokenPricesUSD =
     sort [TokenAddress tokenID. (tokenID, price) \<leftarrow> rawTokenPricesUSD,
             ChainSelector tokenID = dest]"

text \<open>The TokenIDs of the native token of the source chain, on either chain.\<close>

definition sourceNativeTokenID :: "priceService \<Rightarrow> TokenID" where
  "sourceNativeTokenID p =
     \<lparr>TokenAddress = sourceNative p, ChainSelector = sourceChainSelector p\<rparr>"

definition destNativeTokenID :: "priceService \<Rightarrow> TokenID" where
  "destNativeTokenID p =
     \<lparr>TokenAddress = sourceNative p, ChainSelector = destChainSelector p\<rparr>"

definition observeTokenPriceUpdates :: "priceService \<Rightarrow> error + (Address, int option) gomap" where
  "observeTokenPriceUpdates p =
     (case destPriceRegistryReader p of
        None \<Rightarrow> Inl (Msg ''destPriceRegistry is not set yet'')
      | Some reader \<Rightarrow>
          (case GetJobSpecTokenPricesUSD (priceGetter p) of
             Inl e \<Rightarrow> Inl (Wrap ''failed to fetch token prices'' (Msg e))
           | Inr fetched \<Rightarrow>
               (case backfillDestNative p fetched of
                  Inl e \<Rightarrow> Inl e
                | Inr rawTokenPricesUSD \<Rightarrow>
                    if list_ex (\<lambda>(tokenID, price). price = None) rawTokenPricesUSD
                    then Inl (Msg ''token price is nil for token'')
                    else
                      (let destTokens = sortedDestTokens (destChainSelector p) rawTokenPricesUSD
                       in case GetTokensDecimals reader destTokens of
                            Inl e \<Rightarrow> Inl (Wrap ''get tokens decimals'' (Msg e))
                          | Inr destTokensDecimals \<Rightarrow>
                              if length destTokensDecimals \<noteq> length destTokens
                              then Inl (Msg ''mismatched token decimals and tokens'')
                              else convertPrices (destChainSelector p) rawTokenPricesUSD
                                     destTokensDecimals destTokens 0 []))))"

subsection \<open>Writing to the database\<close>

text \<open>
  \<^verbatim>\<open>assets.NewWei\<close> converts the pointer, so a nil price stays nil. Each function
  returns the error (\<^term>\<open>None\<close> for nil) and the service with the call recorded.
\<close>

definition writeGasPricesToDB :: "priceService \<Rightarrow> int option \<Rightarrow> error option \<times> priceService" where
  "writeGasPricesToDB p sourceGasPriceUSD =
     (case sourceGasPriceUSD of
        None \<Rightarrow> (None, p)
      | Some v \<Rightarrow>
          (let rows = [\<lparr>SourceChainSelector = sourceChainSelector p, GasPrice = Some v\<rparr>]
           in (map_option Msg (UpsertGasPricesForDestChain (orm p) (destChainSelector p) rows),
               p\<lparr>upserts := upserts p @ [UpsertGas (destChainSelector p) rows]\<rparr>)))"

definition writeTokenPricesToDB ::
  "priceService \<Rightarrow> (Address, int option) gomap option \<Rightarrow> error option \<times> priceService" where
  "writeTokenPricesToDB p tokenPricesUSD =
     (case tokenPricesUSD of
        None \<Rightarrow> (None, p)
      | Some m \<Rightarrow>
          (let tokenPrices =
                 sort_key TokenAddr
                   (map (\<lambda>(token, price). \<lparr>TokenAddr = token, TokenPrice = price\<rparr>) m)
           in (map_option Msg
                 (UpsertTokenPricesForDestChain (orm p) (destChainSelector p) tokenPrices
                    (tokenUpdateInterval p)),
               p\<lparr>upserts := upserts p @
                     [UpsertToken (destChainSelector p) tokenPrices (tokenUpdateInterval p)]\<rparr>)))"

subsection \<open>Refresh cycles and dynamic configuration\<close>

definition runGasPriceUpdate :: "priceService \<Rightarrow> error option \<times> priceService" where
  "runGasPriceUpdate p =
     (case gasPriceEstimator p of
        None \<Rightarrow> (None, p)
      | Some est \<Rightarrow>
          (case observeGasPriceUpdates p of
             Inl e \<Rightarrow> (Some (wrap ''failed to observe gas price updates'' e), p)
           | Inr sourceGasPriceUSD \<Rightarrow>
               (case writeGasPricesToDB p sourceGasPriceUSD of
                  (Some e, p') \<Rightarrow> (Some (wrap ''failed to write gas prices to db'' e), p')
                | (None, p') \<Rightarrow> (None, p'))))"

definition runTokenPriceUpdate :: "priceService \<Rightarrow> error option \<times> priceService" where
  "runTokenPriceUpdate p =
     (case destPriceRegistryReader p of
        None \<Rightarrow> (None, p)
      | Some reader \<Rightarrow>
          (case observeTokenPriceUpdates p of
             Inl e \<Rightarrow> (Some (wrap ''failed to observe token price updates'' e), p)
           | Inr tokenPricesUSD \<Rightarrow>
               (case writeTokenPricesToDB p (Some tokenPricesUSD) of
                  (Some e, p') \<Rightarrow> (Some (wrap ''failed to write token prices to db'' e), p')
                | (None, p') \<Rightarrow> (None, p'))))"

text \<open>
  An error of a refresh cycle is logged and dropped. A panic is neither: it leaves
  \<^verbatim>\<open>UpdateDynamicConfig\<close> before the return statement.
\<close>

definition UpdateDynamicConfig ::
  "priceService \<Rightarrow> GasPriceEstimatorCommit option \<Rightarrow> PriceRegistryReader option \<Rightarrow>
     error option \<times> priceService" where
  "UpdateDynamicConfig p newEstimator newReader =
     (let p1 = p\<lparr>gasPriceEstimator := newEstimator, destPriceRegistryReader := newReader\<rparr>;
          (err1, p2) = runGasPriceUpdate p1
      in if err1 = Some Panic then (Some Panic, p2)
         else
           (let (err2, p3) = runTokenPriceUpdate p2
            in if err2 = Some Panic then (Some Panic, p3) else (None, p3)))"

subsection \<open>Read API\<close>

text \<open>
  The two fetches run in an \<^verbatim>\<open>errgroup\<close>, whose \<^verbatim>\<open>Wait\<close> returns the first error
  recorded. When both fail, \<open>gasFirst\<close> says which goroutine recorded its error first.
\<close>

definition errgroup_Wait :: "bool \<Rightarrow> error option \<Rightarrow> error option \<Rightarrow> error option" where
  "errgroup_Wait gasFirst e1 e2 =
     (case (e1, e2) of
        (None, None) \<Rightarrow> None
      | (Some a, None) \<Rightarrow> Some a
      | (None, Some b) \<Rightarrow> Some b
      | (Some a, Some b) \<Rightarrow> Some (if gasFirst then a else b))"

text \<open>The bodies of the two loops of lines 204 to 214, and the loops.\<close>

definition addGasPrice ::
  "(64 word, int option) gomap \<Rightarrow> orm_GasPrice \<Rightarrow> (64 word, int option) gomap" where
  "addGasPrice gasPrices gasPrice =
     (case GasPrice gasPrice of
        None \<Rightarrow> gasPrices
      | Some v \<Rightarrow> AList.update (SourceChainSelector gasPrice) (Some v) gasPrices)"

definition addTokenPrice ::
  "(Address, int option) gomap \<Rightarrow> orm_TokenPrice \<Rightarrow> (Address, int option) gomap" where
  "addTokenPrice tokenPrices tokenPrice =
     (case TokenPrice tokenPrice of
        None \<Rightarrow> tokenPrices
      | Some v \<Rightarrow> AList.update (TokenAddr tokenPrice) (Some v) tokenPrices)"

definition gasPricesLoop :: "orm_GasPrice list \<Rightarrow> (64 word, int option) gomap" where
  "gasPricesLoop gasPricesInDB = foldl addGasPrice [] gasPricesInDB"

definition tokenPricesLoop :: "orm_TokenPrice list \<Rightarrow> (Address, int option) gomap" where
  "tokenPricesLoop tokenPricesInDB = foldl addTokenPrice [] tokenPricesInDB"

text \<open>
  The three results of \<^verbatim>\<open>GetGasAndTokenPrices\<close>; a map result of \<^term>\<open>None\<close> is
  the nil map, an error result of \<^term>\<open>None\<close> is the nil error.
\<close>

definition GetGasAndTokenPrices ::
  "priceService \<Rightarrow> bool \<Rightarrow> 64 word \<Rightarrow>
     (64 word, int option) gomap option \<times> (Address, int option) gomap option \<times> error option" where
  "GetGasAndTokenPrices p gasFirst destChainSelector' =
     (let gasFetch = GetGasPricesByDestChain (orm p) destChainSelector';
          tokenFetch = GetTokenPricesByDestChain (orm p) destChainSelector';
          gasErr = (case gasFetch of
                      Inl e \<Rightarrow> Some (Wrap ''failed to get gas prices from db'' (Msg e))
                    | Inr rows \<Rightarrow> None);
          tokenErr = (case tokenFetch of
                        Inl e \<Rightarrow> Some (Wrap ''failed to get token prices from db'' (Msg e))
                      | Inr rows \<Rightarrow> None);
          gasPricesInDB = (case gasFetch of Inl e \<Rightarrow> [] | Inr rows \<Rightarrow> rows);
          tokenPricesInDB = (case tokenFetch of Inl e \<Rightarrow> [] | Inr rows \<Rightarrow> rows)
      in case errgroup_Wait gasFirst gasErr tokenErr of
           Some err \<Rightarrow> (None, None, Some err)
         | None \<Rightarrow>
             (Some (gasPricesLoop gasPricesInDB), Some (tokenPricesLoop tokenPricesInDB), None))"

subsection \<open>A lane\<close>

text \<open>
  The scenario of the specification: destination chain 10, source chain 1, source native
  token \<open>0xAAA\<close>. The job spec prices \<open>0xAAA\<close> on chain 1 at 2 dollars and \<open>0xBBB\<close>
  on chain 10 at 1 dollar; \<open>0xBBB\<close> has 6 decimals, and \<open>0xAAA\<close> is a fee token of
  the destination chain. The database holds one gas price row and one token price row
  with a price, and one of each without.
\<close>

definition example_prices :: "(TokenID, int option) gomap" where
  "example_prices =
     [(\<lparr>TokenAddress = ''0xBBB'', ChainSelector = 10\<rparr>, Some 1000000000000000000),
      (\<lparr>TokenAddress = ''0xAAA'', ChainSelector = 1\<rparr>, Some 2000000000000000000)]"

definition example_native_price :: "(TokenID, int option) gomap" where
  "example_native_price =
     [(\<lparr>TokenAddress = ''0xAAA'', ChainSelector = 1\<rparr>, Some 2000000000000000000)]"

text \<open>Prices of a job spec in the current format, which names the destination-native token.\<close>

definition example_prices_current :: "(TokenID, int option) gomap" where
  "example_prices_current =
     [(\<lparr>TokenAddress = ''0xAAA'', ChainSelector = 10\<rparr>, Some 5),
      (\<lparr>TokenAddress = ''0xAAA'', ChainSelector = 1\<rparr>, Some 2000000000000000000)]"

definition example_getter :: AllTokensPriceGetter where
  "example_getter =
     \<lparr>GetTokenPricesUSD = (\<lambda>ids. Inr example_native_price),
      GetJobSpecTokenPricesUSD = Inr example_prices\<rparr>"

definition example_estimator :: GasPriceEstimatorCommit where
  "example_estimator =
     \<lparr>GetGasPrice = Inr (Some 30000000000),
      DenoteInUSD =
        (\<lambda>gas native. case native of
                         None \<Rightarrow> Inl ''no native price''
                       | Some n \<Rightarrow> Inr (Some (gas * n div 1000000000000000000)))\<rparr>"

definition example_reader :: PriceRegistryReader where
  "example_reader =
     \<lparr>GetFeeTokens = Inr [''0xAAA''],
      GetTokensDecimals = (\<lambda>tokens. Inr (map (\<lambda>t. if t = ''0xBBB'' then 6 else 18) tokens))\<rparr>"

definition example_offRamp :: OffRampReader where
  "example_offRamp = \<lparr>GetTokens = Inr [''0xBBB'']\<rparr>"

definition example_orm :: ORM where
  "example_orm =
     \<lparr>GetGasPricesByDestChain =
        (\<lambda>d. Inr [\<lparr>SourceChainSelector = 1, GasPrice = Some 60000000000000\<rparr>,
                  \<lparr>SourceChainSelector = 5, GasPrice = None\<rparr>]),
      GetTokenPricesByDestChain =
        (\<lambda>d. Inr [\<lparr>TokenAddr = ''0xBBB'', TokenPrice = Some 7\<rparr>,
                  \<lparr>TokenAddr = ''0xCCC'', TokenPrice = None\<rparr>]),
      UpsertGasPricesForDestChain = (\<lambda>d rows. None),
      UpsertTokenPricesForDestChain = (\<lambda>d rows ttl. None)\<rparr>"

definition example_service :: priceService where
  "example_service =
     \<lparr>gasUpdateInterval = 60000000000,
      tokenUpdateInterval = 600000000000,
      orm = example_orm,
      destChainSelector = 10,
      sourceChainSelector = 1,
      sourceNative = ''0xAAA'',
      priceGetter = example_getter,
      offRampReader = example_offRamp,
      gasPriceEstimator = Some example_estimator,
      destPriceRegistryReader = Some example_reader,
      upserts = []\<rparr>"

text \<open>
  The job spec prices after the backfill, a registry reader that answers with one
  decimals value whatever the request, and job spec prices with a nil price.
\<close>

definition example_backfilled :: "(TokenID, int option) gomap" where
  "example_backfilled =
     [(\<lparr>TokenAddress = ''0xBBB'', ChainSelector = 10\<rparr>, Some 1000000000000000000),
      (\<lparr>TokenAddress = ''0xAAA'', ChainSelector = 1\<rparr>, Some 2000000000000000000),
      (\<lparr>TokenAddress = ''0xAAA'', ChainSelector = 10\<rparr>, Some 2000000000000000000)]"

definition example_reader_short :: PriceRegistryReader where
  "example_reader_short = example_reader\<lparr>GetTokensDecimals := (\<lambda>tokens. Inr [6])\<rparr>"

definition example_prices_nil :: "(TokenID, int option) gomap" where
  "example_prices_nil =
     [(\<lparr>TokenAddress = ''0xBBB'', ChainSelector = 10\<rparr>, None),
      (\<lparr>TokenAddress = ''0xAAA'', ChainSelector = 10\<rparr>, Some 5)]"

text \<open>An upsert call none of whose rows carries a nil price.\<close>

fun nonNullUpsert :: "upsert \<Rightarrow> bool" where
  "nonNullUpsert (UpsertGas d rows) = list_all (\<lambda>r. GasPrice r \<noteq> None) rows"
| "nonNullUpsert (UpsertToken d rows ttl) = list_all (\<lambda>r. TokenPrice r \<noteq> None) rows"

section \<open>Properties\<close>

subsection \<open>Arithmetic of the converter\<close>

lemma big_Quo_nonneg: "0 \<le> x \<Longrightarrow> 0 < y \<Longrightarrow> big_Quo x y = x div y"
  by (cases "x = 0") (simp_all add: big_Quo_def)

lemma big_Div_nonneg: "0 \<le> x \<Longrightarrow> 0 < y \<Longrightarrow> big_Div x y = Some (x div y)"
proof -
  assume x: "0 \<le> x" and y: "0 < y"
  have "x div y * y + x mod y = x" by simp
  moreover have "0 \<le> x mod y"
    using y by simp
  ultimately have "\<not> x - x div y * y < 0" by linarith
  then show ?thesis
    using x y by (simp only: big_Div_def big_Quo_nonneg Let_def if_False) simp
qed

lemma big_Exp_uint: "big_Exp 10 (uint (d :: 8 word)) = 10 ^ unat d"
proof (cases "uint d \<le> 0")
  case True
  then have "uint d = 0" by (simp add: order_antisym)
  then have "unat d = 0" by (simp add: unat_eq_nat_uint)
  with True show ?thesis by (simp only: big_Exp_def if_True power_0)
next
  case False
  then show ?thesis by (simp only: big_Exp_def if_False unat_eq_nat_uint)
qed

text \<open>
  C2. For a non-negative price and at most 18 decimals the converter returns, without
  panicking, the price times \<open>10^18\<close> divided by \<open>10^decimals\<close>: the floor of the exact
  quotient, which is also the quotient truncated towards zero. One dollar at 6 decimals
  gives \<open>10^30\<close>.
\<close>

theorem calculateUsdPer1e18TokenAmount_floor:
  "0 \<le> price \<Longrightarrow> unat decimals \<le> 18 \<Longrightarrow>
     calculateUsdPer1e18TokenAmount (Some price) decimals
       = Inr (price * 10 ^ 18 div 10 ^ unat decimals)
     \<and> price * 10 ^ 18 div 10 ^ unat decimals
       = \<lfloor>real_of_int (price * 10 ^ 18) / real_of_int (10 ^ unat decimals)\<rfloor>
     \<and> price * 10 ^ 18 div 10 ^ unat decimals
       = big_Quo (price * 10 ^ 18) (10 ^ unat decimals)
     \<and> calculateUsdPer1e18TokenAmount (Some (1 * 10 ^ 18)) 6 = Inr (1 * 10 ^ 30)"
proof -
  assume p: "0 \<le> price"
  have pos: "(0::int) < 10 ^ unat decimals" by simp
  have nn: "0 \<le> price * 1000000000000000000" using p by simp
  have a: "calculateUsdPer1e18TokenAmount (Some price) decimals
             = Inr (price * 10 ^ 18 div 10 ^ unat decimals)"
    by (simp add: calculateUsdPer1e18TokenAmount_def big_Exp_uint big_Div_nonneg [OF nn pos])
  have b: "price * 10 ^ 18 div 10 ^ unat decimals
             = \<lfloor>real_of_int (price * 10 ^ 18) / real_of_int (10 ^ unat decimals)\<rfloor>"
    by (simp only: floor_divide_of_int_eq)
  have c: "price * 10 ^ 18 div 10 ^ unat decimals
             = big_Quo (price * 10 ^ 18) (10 ^ unat decimals)"
    using nn pos by (simp add: big_Quo_nonneg)
  have d: "calculateUsdPer1e18TokenAmount (Some (1 * 10 ^ 18)) 6 = Inr (1 * 10 ^ 30)"
    by (simp add: calculateUsdPer1e18TokenAmount_def big_Div_def big_Quo_def big_Exp_def)
  from a b c d show ?thesis by blast
qed

theorem calculateUsdPer1e18TokenAmount_floor_witness:
  "(0::int) \<le> 2500000000000000000 \<and> unat (8 :: 8 word) \<le> 18
   \<and> calculateUsdPer1e18TokenAmount (Some 2500000000000000000) 8
       = Inr 25000000000000000000000000000"
  using calculateUsdPer1e18TokenAmount_floor [of 2500000000000000000 8]
  by simp

lemmas example_defs =
  example_service_def example_orm_def example_offRamp_def example_reader_def
  example_estimator_def example_getter_def example_prices_def example_native_price_def
  example_prices_current_def example_backfilled_def example_reader_short_def
  example_prices_nil_def

subsection \<open>Backward-compatibility resolver\<close>

text \<open>
  C1. The resolver yields a price exactly when the destination-native TokenID is absent
  from the working set, the destination tokens are fetched and the source native address
  is among the flattened, deduplicated fee and bridged tokens, and the source-native
  TokenID has a non-nil price. The price it yields is that source-native price, stored
  under the destination-native TokenID, the other entries staying as they are. In every
  other case nothing is stored: either the resolver yields nil and the working set is
  unchanged, or the destination-native TokenID is absent, fetching the destination
  tokens failed, and the resolver and the backfill return an error. A working set that
  has the destination-native price is never changed.
\<close>

theorem findMissingDestNativeTokenPrice_iff:
  "((\<exists>v. findMissingDestNativeTokenPrice p ws = Inr (Some v)) \<longleftrightarrow>
      map_of ws (destNativeTokenID p) = None
      \<and> (\<exists>fee bridged.
            GetDestinationTokens (offRampReader p) (destPriceRegistryReader p) = Inr (fee, bridged)
            \<and> sourceNative p \<in> set (FlattenedAndSortedTokens fee bridged))
      \<and> (\<exists>v. map_of ws (sourceNativeTokenID p) = Some (Some v)))
   \<and> (\<forall>v. findMissingDestNativeTokenPrice p ws = Inr (Some v) \<longrightarrow>
          map_of ws (sourceNativeTokenID p) = Some (Some v)
          \<and> (\<exists>ws'. backfillDestNative p ws = Inr ws'
                \<and> map_of ws' = (map_of ws)(destNativeTokenID p \<mapsto> Some v)))
   \<and> ((\<nexists>v. findMissingDestNativeTokenPrice p ws = Inr (Some v)) \<longrightarrow>
         (findMissingDestNativeTokenPrice p ws = Inr None \<and> backfillDestNative p ws = Inr ws)
         \<or> (map_of ws (destNativeTokenID p) = None
             \<and> (\<exists>e. GetDestinationTokens (offRampReader p) (destPriceRegistryReader p) = Inl e)
             \<and> isl (findMissingDestNativeTokenPrice p ws)
             \<and> isl (backfillDestNative p ws)))
   \<and> (map_of ws (destNativeTokenID p) \<noteq> None \<longrightarrow>
         findMissingDestNativeTokenPrice p ws = Inr None \<and> backfillDestNative p ws = Inr ws)
   \<and> (map_of ws (destNativeTokenID p) = None
         \<and> (\<exists>e. GetDestinationTokens (offRampReader p) (destPriceRegistryReader p) = Inl e) \<longrightarrow>
         isl (findMissingDestNativeTokenPrice p ws) \<and> isl (backfillDestNative p ws))
   \<and> (\<forall>fee bridged.
          set (FlattenedAndSortedTokens fee bridged) = set fee \<union> set bridged
          \<and> distinct (FlattenedAndSortedTokens fee bridged))"
proof -
  let ?dest = "destNativeTokenID p" and ?src = "sourceNativeTokenID p"
  let ?fetch = "GetDestinationTokens (offRampReader p) (destPriceRegistryReader p)"
  have flat: "\<forall>fee bridged.
          set (FlattenedAndSortedTokens fee bridged) = set fee \<union> set bridged
          \<and> distinct (FlattenedAndSortedTokens fee bridged)"
    by (simp add: FlattenedAndSortedTokens_def)
  have present: "map_of ws ?dest \<noteq> None \<Longrightarrow>
      findMissingDestNativeTokenPrice p ws = Inr None \<and> backfillDestNative p ws = Inr ws"
    by (simp add: findMissingDestNativeTokenPrice_def backfillDestNative_def
          destNativeTokenID_def Let_def)
  have failed: "\<And>e. map_of ws ?dest = None \<Longrightarrow> ?fetch = Inl e \<Longrightarrow>
      findMissingDestNativeTokenPrice p ws = Inl (wrap ''get destination tokens'' e)
      \<and> isl (backfillDestNative p ws)"
    by (simp add: findMissingDestNativeTokenPrice_def backfillDestNative_def
          destNativeTokenID_def Let_def)
  have fetched: "\<And>fee bridged. map_of ws ?dest = None \<Longrightarrow> ?fetch = Inr (fee, bridged) \<Longrightarrow>
      findMissingDestNativeTokenPrice p ws
        = (if sourceNative p \<in> set (FlattenedAndSortedTokens fee bridged)
           then (case map_of ws ?src of
                   None \<Rightarrow> Inr None
                 | Some None \<Rightarrow> Inr None
                 | Some (Some v) \<Rightarrow> Inr (Some v))
           else Inr None)"
    by (simp add: findMissingDestNativeTokenPrice_def destNativeTokenID_def
          sourceNativeTokenID_def Let_def)
  have unchanged: "findMissingDestNativeTokenPrice p ws = Inr None \<Longrightarrow>
      backfillDestNative p ws = Inr ws"
    by (simp add: backfillDestNative_def)
  have stored: "\<And>v. findMissingDestNativeTokenPrice p ws = Inr (Some v) \<Longrightarrow>
      \<exists>ws'. backfillDestNative p ws = Inr ws'
            \<and> map_of ws' = (map_of ws)(destNativeTokenID p \<mapsto> Some v)"
    by (simp add: backfillDestNative_def destNativeTokenID_def update_conv')
  have iff: "(\<exists>v. findMissingDestNativeTokenPrice p ws = Inr (Some v)) \<longleftrightarrow>
      map_of ws ?dest = None
      \<and> (\<exists>fee bridged. ?fetch = Inr (fee, bridged)
            \<and> sourceNative p \<in> set (FlattenedAndSortedTokens fee bridged))
      \<and> (\<exists>v. map_of ws ?src = Some (Some v))"
  proof (cases "map_of ws ?dest")
    case (Some x)
    with present show ?thesis by simp
  next
    case None
    show ?thesis
    proof (cases ?fetch)
      case (Inl e)
      with failed [OF None Inl] None show ?thesis by simp
    next
      case (Inr fb)
      obtain fee bridged where fb: "fb = (fee, bridged)" by (cases fb)
      with Inr have f: "?fetch = Inr (fee, bridged)" by simp
      show ?thesis
        using None f fetched [OF None f]
        by (auto split: option.splits if_splits)
    qed
  qed
  have verbatim: "\<forall>v. findMissingDestNativeTokenPrice p ws = Inr (Some v) \<longrightarrow>
          map_of ws ?src = Some (Some v)
          \<and> (\<exists>ws'. backfillDestNative p ws = Inr ws'
                \<and> map_of ws' = (map_of ws)(destNativeTokenID p \<mapsto> Some v))"
  proof (intro allI impI conjI)
    fix v assume v: "findMissingDestNativeTokenPrice p ws = Inr (Some v)"
    then show "\<exists>ws'. backfillDestNative p ws = Inr ws'
                \<and> map_of ws' = (map_of ws)(destNativeTokenID p \<mapsto> Some v)"
      by (rule stored)
    from v present have None: "map_of ws ?dest = None" by (cases "map_of ws ?dest") auto
    from v failed [OF None] obtain fb where "?fetch = Inr fb"
      by (cases ?fetch) auto
    then obtain fee bridged where f: "?fetch = Inr (fee, bridged)" by (cases fb) auto
    from v fetched [OF None f] show "map_of ws ?src = Some (Some v)"
      by (auto split: option.splits if_splits)
  qed
  have other: "(\<nexists>v. findMissingDestNativeTokenPrice p ws = Inr (Some v)) \<longrightarrow>
         (findMissingDestNativeTokenPrice p ws = Inr None \<and> backfillDestNative p ws = Inr ws)
         \<or> (map_of ws ?dest = None \<and> (\<exists>e. ?fetch = Inl e)
             \<and> isl (findMissingDestNativeTokenPrice p ws)
             \<and> isl (backfillDestNative p ws))"
  proof
    assume no: "\<nexists>v. findMissingDestNativeTokenPrice p ws = Inr (Some v)"
    show "(findMissingDestNativeTokenPrice p ws = Inr None \<and> backfillDestNative p ws = Inr ws)
         \<or> (map_of ws ?dest = None \<and> (\<exists>e. ?fetch = Inl e)
             \<and> isl (findMissingDestNativeTokenPrice p ws)
             \<and> isl (backfillDestNative p ws))"
    proof (cases "findMissingDestNativeTokenPrice p ws")
      case (Inr r)
      with no have n: "findMissingDestNativeTokenPrice p ws = Inr None" by (cases r) auto
      from n unchanged [OF n] show ?thesis by simp
    next
      case (Inl err)
      with present have None: "map_of ws ?dest = None" by (cases "map_of ws ?dest") auto
      have "\<exists>e. ?fetch = Inl e"
      proof (cases ?fetch)
        case (Inl e)
        then show ?thesis by simp
      next
        case (Inr fb)
        then obtain fee bridged where f: "?fetch = Inr (fee, bridged)" by (cases fb) auto
        from fetched [OF None f] Inl show ?thesis
          by (auto split: option.splits if_splits)
      qed
      then obtain e where e: "?fetch = Inl e" ..
      from failed [OF None e] None e show ?thesis by auto
    qed
  qed
  have failing: "map_of ws ?dest = None \<and> (\<exists>e. ?fetch = Inl e) \<longrightarrow>
         isl (findMissingDestNativeTokenPrice p ws) \<and> isl (backfillDestNative p ws)"
    using failed by auto
  from iff verbatim other present failing flat show ?thesis
    by (intro conjI impI) (assumption | simp)+
qed

theorem findMissingDestNativeTokenPrice_iff_witness:
  "GetDestinationTokens (offRampReader example_service) (destPriceRegistryReader example_service)
     = Inr ([''0xAAA''], [''0xBBB''])
   \<and> map_of example_prices (destNativeTokenID example_service) = None
   \<and> sourceNative example_service \<in> set (FlattenedAndSortedTokens [''0xAAA''] [''0xBBB''])
   \<and> map_of example_prices (sourceNativeTokenID example_service)
       = Some (Some 2000000000000000000)
   \<and> findMissingDestNativeTokenPrice example_service example_prices
       = Inr (Some 2000000000000000000)
   \<and> map_of example_prices_current (destNativeTokenID example_service) \<noteq> None
   \<and> backfillDestNative example_service example_prices_current = Inr example_prices_current
   \<and> map_of example_prices
        (destNativeTokenID
           (example_service\<lparr>destPriceRegistryReader :=
              Some (example_reader\<lparr>GetFeeTokens := Inl ''rpc down''\<rparr>)\<rparr>)) = None
   \<and> GetDestinationTokens
        (offRampReader
           (example_service\<lparr>destPriceRegistryReader :=
              Some (example_reader\<lparr>GetFeeTokens := Inl ''rpc down''\<rparr>)\<rparr>))
        (destPriceRegistryReader
           (example_service\<lparr>destPriceRegistryReader :=
              Some (example_reader\<lparr>GetFeeTokens := Inl ''rpc down''\<rparr>)\<rparr>))
       = Inl (Msg ''rpc down'')
   \<and> isl (findMissingDestNativeTokenPrice
            (example_service\<lparr>destPriceRegistryReader :=
               Some (example_reader\<lparr>GetFeeTokens := Inl ''rpc down''\<rparr>)\<rparr>)
            example_prices)
   \<and> isl (backfillDestNative
            (example_service\<lparr>destPriceRegistryReader :=
               Some (example_reader\<lparr>GetFeeTokens := Inl ''rpc down''\<rparr>)\<rparr>)
            example_prices)"
proof -
  let ?q = "example_service\<lparr>destPriceRegistryReader :=
              Some (example_reader\<lparr>GetFeeTokens := Inl ''rpc down''\<rparr>)\<rparr>"
  have tokens: "GetDestinationTokens (offRampReader example_service)
                  (destPriceRegistryReader example_service) = Inr ([''0xAAA''], [''0xBBB''])"
    by (simp add: example_defs GetDestinationTokens_def)
  have absent: "map_of example_prices (destNativeTokenID example_service) = None"
    by (simp add: example_defs destNativeTokenID_def)
  have listed: "sourceNative example_service \<in> set (FlattenedAndSortedTokens [''0xAAA''] [''0xBBB''])"
    by (simp add: example_defs FlattenedAndSortedTokens_def)
  have priced: "map_of example_prices (sourceNativeTokenID example_service)
                  = Some (Some 2000000000000000000)"
    by (simp add: example_defs sourceNativeTokenID_def)
  have present: "map_of example_prices_current (destNativeTokenID example_service) \<noteq> None"
    by (simp add: example_defs destNativeTokenID_def)
  have absent': "map_of example_prices (destNativeTokenID ?q) = None"
    by (simp add: example_defs destNativeTokenID_def)
  have failed: "GetDestinationTokens (offRampReader ?q) (destPriceRegistryReader ?q)
                  = Inl (Msg ''rpc down'')"
    by (simp add: GetDestinationTokens_def)
  note t1 = findMissingDestNativeTokenPrice_iff [where p = example_service and ws = example_prices]
  note t2 = findMissingDestNativeTokenPrice_iff
              [where p = example_service and ws = example_prices_current]
  note t3 = findMissingDestNativeTokenPrice_iff [where p = ?q and ws = example_prices]
  have ex1: "\<exists>fee bridged.
               GetDestinationTokens (offRampReader example_service)
                 (destPriceRegistryReader example_service) = Inr (fee, bridged)
               \<and> sourceNative example_service \<in> set (FlattenedAndSortedTokens fee bridged)"
    by (intro exI conjI) (rule tokens, rule listed)
  have ex2: "\<exists>v. map_of example_prices (sourceNativeTokenID example_service) = Some (Some v)"
    by (intro exI) (rule priced)
  from t1 [THEN conjunct1, THEN iffD2, OF conjI [OF absent conjI [OF ex1 ex2]]]
  obtain v where v: "findMissingDestNativeTokenPrice example_service example_prices = Inr (Some v)" ..
  note same = t1 [THEN conjunct2, THEN conjunct1, THEN spec, THEN mp, OF v, THEN conjunct1]
  from same priced have "v = 2000000000000000000" by simp
  with v have fires: "findMissingDestNativeTokenPrice example_service example_prices
                        = Inr (Some 2000000000000000000)" by simp
  note kept = t2 [THEN conjunct2, THEN conjunct2, THEN conjunct2, THEN conjunct1, THEN mp,
                  OF present, THEN conjunct2]
  have ex3: "\<exists>e. GetDestinationTokens (offRampReader ?q) (destPriceRegistryReader ?q) = Inl e"
    by (intro exI) (rule failed)
  note err = t3 [THEN conjunct2, THEN conjunct2, THEN conjunct2, THEN conjunct2, THEN conjunct1,
                 THEN mp, OF conjI [OF absent' ex3]]
  from tokens absent listed priced fires present kept absent' failed
    err [THEN conjunct1] err [THEN conjunct2]
  show ?thesis by (intro conjI)
qed

subsection \<open>Gas price observation\<close>









subsection \<open>Read API\<close>

lemma set_update_subset: "set (AList.update k v al) \<subseteq> insert (k, v) (set al)"
  by (induction al) auto

lemma update_nil_free:
  "None \<notin> snd ` set al \<Longrightarrow> None \<notin> snd ` set (AList.update k (Some v) al)"
proof
  assume a: "None \<notin> snd ` set al" and b: "None \<in> snd ` set (AList.update k (Some v) al)"
  from b obtain k' where "(k', None) \<in> set (AList.update k (Some v) al)" by force
  with set_update_subset [of k "Some v" al] have "(k', None) \<in> set al" by auto
  with a show False by force
qed

lemma nil_free_map_of: "None \<notin> snd ` set m \<Longrightarrow> map_of m k \<noteq> Some None"
  by (force dest: map_of_SomeD)

lemma addGasPrice_nil_free: "None \<notin> snd ` set acc \<Longrightarrow> None \<notin> snd ` set (addGasPrice acc r)"
  by (cases "GasPrice r") (simp_all add: addGasPrice_def update_nil_free)

lemma addGasPrice_keys:
  "fst ` set (addGasPrice acc r)
     = fst ` set acc \<union> (if GasPrice r = None then {} else {SourceChainSelector r})"
  by (cases "GasPrice r") (simp_all add: addGasPrice_def dom_update)

lemma foldl_addGasPrice_nil_free:
  "None \<notin> snd ` set acc \<Longrightarrow> None \<notin> snd ` set (foldl addGasPrice acc rows)"
  by (induction rows arbitrary: acc) (simp_all add: addGasPrice_nil_free)

lemma foldl_addGasPrice_keys:
  "fst ` set (foldl addGasPrice acc rows)
     = fst ` set acc \<union> SourceChainSelector ` {r \<in> set rows. GasPrice r \<noteq> None}"
proof (induction rows arbitrary: acc)
  case Nil
  then show ?case by simp
next
  case (Cons r rows)
  have "{x \<in> set (r # rows). GasPrice x \<noteq> None}
          = (if GasPrice r = None then {} else {r}) \<union> {x \<in> set rows. GasPrice x \<noteq> None}"
    by auto
  then show ?case
    by (simp add: Cons.IH addGasPrice_keys image_Un Un_assoc)
qed

lemma addTokenPrice_nil_free:
  "None \<notin> snd ` set acc \<Longrightarrow> None \<notin> snd ` set (addTokenPrice acc r)"
  by (cases "TokenPrice r") (simp_all add: addTokenPrice_def update_nil_free)

lemma addTokenPrice_keys:
  "fst ` set (addTokenPrice acc r)
     = fst ` set acc \<union> (if TokenPrice r = None then {} else {TokenAddr r})"
  by (cases "TokenPrice r") (simp_all add: addTokenPrice_def dom_update)

lemma foldl_addTokenPrice_nil_free:
  "None \<notin> snd ` set acc \<Longrightarrow> None \<notin> snd ` set (foldl addTokenPrice acc rows)"
  by (induction rows arbitrary: acc) (simp_all add: addTokenPrice_nil_free)

lemma foldl_addTokenPrice_keys:
  "fst ` set (foldl addTokenPrice acc rows)
     = fst ` set acc \<union> TokenAddr ` {r \<in> set rows. TokenPrice r \<noteq> None}"
proof (induction rows arbitrary: acc)
  case Nil
  then show ?case by simp
next
  case (Cons r rows)
  have "{x \<in> set (r # rows). TokenPrice x \<noteq> None}
          = (if TokenPrice r = None then {} else {r}) \<union> {x \<in> set rows. TokenPrice x \<noteq> None}"
    by auto
  then show ?case
    by (simp add: Cons.IH addTokenPrice_keys image_Un Un_assoc)
qed

lemma GetGasAndTokenPrices_success:
  "GetGasPricesByDestChain (orm p) d = Inr gasRows \<Longrightarrow>
   GetTokenPricesByDestChain (orm p) d = Inr tokenRows \<Longrightarrow>
   GetGasAndTokenPrices p gasFirst d
     = (Some (gasPricesLoop gasRows), Some (tokenPricesLoop tokenRows), None)"
  by (simp add: GetGasAndTokenPrices_def errgroup_Wait_def)

lemma GetGasAndTokenPrices_nil_error:
  "GetGasAndTokenPrices p gasFirst d = (gasPrices, tokenPrices, None) \<Longrightarrow>
   \<exists>gasRows tokenRows.
     GetGasPricesByDestChain (orm p) d = Inr gasRows
     \<and> GetTokenPricesByDestChain (orm p) d = Inr tokenRows"
  by (cases "GetGasPricesByDestChain (orm p) d"; cases "GetTokenPricesByDestChain (orm p) d")
     (simp_all add: GetGasAndTokenPrices_def errgroup_Wait_def)

text \<open>
  C10. When both fetches succeed the call succeeds, whatever the rows hold: the keys of
  the gas price map are the source chain selectors of the rows with a non-nil price, the
  keys of the token price map are the addresses of the rows with a non-nil price. In
  every result with a nil error both maps are non-nil and no key of either maps to nil.
\<close>

theorem GetGasAndTokenPrices_omits_nil:
  "(GetGasPricesByDestChain (orm p) d = Inr gasRows
      \<and> GetTokenPricesByDestChain (orm p) d = Inr tokenRows \<longrightarrow>
      (\<exists>g t. GetGasAndTokenPrices p gasFirst d = (Some g, Some t, None)
         \<and> fst ` set g = SourceChainSelector ` {r \<in> set gasRows. GasPrice r \<noteq> None}
         \<and> fst ` set t = TokenAddr ` {r \<in> set tokenRows. TokenPrice r \<noteq> None}))
   \<and> (\<forall>gasPrices tokenPrices.
         GetGasAndTokenPrices p gasFirst d = (gasPrices, tokenPrices, None) \<longrightarrow>
         (\<exists>g t. gasPrices = Some g \<and> tokenPrices = Some t
            \<and> None \<notin> snd ` set g \<and> None \<notin> snd ` set t
            \<and> (\<forall>k. map_of g k \<noteq> Some None) \<and> (\<forall>k. map_of t k \<noteq> Some None)))"
proof (intro conjI impI allI)
  assume "GetGasPricesByDestChain (orm p) d = Inr gasRows
            \<and> GetTokenPricesByDestChain (orm p) d = Inr tokenRows"
  then have "GetGasAndTokenPrices p gasFirst d
               = (Some (gasPricesLoop gasRows), Some (tokenPricesLoop tokenRows), None)"
    by (simp add: GetGasAndTokenPrices_success)
  moreover have "fst ` set (gasPricesLoop gasRows)
                   = SourceChainSelector ` {r \<in> set gasRows. GasPrice r \<noteq> None}"
    by (simp add: gasPricesLoop_def foldl_addGasPrice_keys)
  moreover have "fst ` set (tokenPricesLoop tokenRows)
                   = TokenAddr ` {r \<in> set tokenRows. TokenPrice r \<noteq> None}"
    by (simp add: tokenPricesLoop_def foldl_addTokenPrice_keys)
  ultimately show "\<exists>g t. GetGasAndTokenPrices p gasFirst d = (Some g, Some t, None)
         \<and> fst ` set g = SourceChainSelector ` {r \<in> set gasRows. GasPrice r \<noteq> None}
         \<and> fst ` set t = TokenAddr ` {r \<in> set tokenRows. TokenPrice r \<noteq> None}"
    by blast
next
  fix gasPrices tokenPrices
  assume r: "GetGasAndTokenPrices p gasFirst d = (gasPrices, tokenPrices, None)"
  then obtain gasRows tokenRows where
    f: "GetGasPricesByDestChain (orm p) d = Inr gasRows"
       "GetTokenPricesByDestChain (orm p) d = Inr tokenRows"
    using GetGasAndTokenPrices_nil_error by blast
  from r GetGasAndTokenPrices_success [OF f]
  have eq: "gasPrices = Some (gasPricesLoop gasRows)" "tokenPrices = Some (tokenPricesLoop tokenRows)"
    by simp_all
  have g: "None \<notin> snd ` set (gasPricesLoop gasRows)"
    by (simp add: gasPricesLoop_def foldl_addGasPrice_nil_free)
  have t: "None \<notin> snd ` set (tokenPricesLoop tokenRows)"
    by (simp add: tokenPricesLoop_def foldl_addTokenPrice_nil_free)
  from eq g t nil_free_map_of [OF g] nil_free_map_of [OF t]
  show "\<exists>g t. gasPrices = Some g \<and> tokenPrices = Some t
            \<and> None \<notin> snd ` set g \<and> None \<notin> snd ` set t
            \<and> (\<forall>k. map_of g k \<noteq> Some None) \<and> (\<forall>k. map_of t k \<noteq> Some None)"
    by blast
qed

theorem GetGasAndTokenPrices_omits_nil_witness:
  "GetGasPricesByDestChain (orm example_service) 10
     = Inr [\<lparr>SourceChainSelector = 1, GasPrice = Some 60000000000000\<rparr>,
            \<lparr>SourceChainSelector = 5, GasPrice = None\<rparr>]
   \<and> GetTokenPricesByDestChain (orm example_service) 10
     = Inr [\<lparr>TokenAddr = ''0xBBB'', TokenPrice = Some 7\<rparr>,
            \<lparr>TokenAddr = ''0xCCC'', TokenPrice = None\<rparr>]
   \<and> (\<exists>g t. GetGasAndTokenPrices example_service True 10 = (Some g, Some t, None)
         \<and> fst ` set g = {1} \<and> fst ` set t = {''0xBBB''}
         \<and> None \<notin> snd ` set g \<and> None \<notin> snd ` set t)"
proof -
  let ?gasRows = "[\<lparr>SourceChainSelector = 1, GasPrice = Some 60000000000000\<rparr>,
                   \<lparr>SourceChainSelector = 5, GasPrice = None\<rparr>]"
  let ?tokenRows = "[\<lparr>TokenAddr = ''0xBBB'', TokenPrice = Some 7\<rparr>,
                     \<lparr>TokenAddr = ''0xCCC'', TokenPrice = None\<rparr>]"
  have gf: "GetGasPricesByDestChain (orm example_service) 10 = Inr ?gasRows"
    by (simp add: example_service_def example_orm_def)
  have tf: "GetTokenPricesByDestChain (orm example_service) 10 = Inr ?tokenRows"
    by (simp add: example_service_def example_orm_def)
  have gk: "SourceChainSelector ` {r \<in> set ?gasRows. GasPrice r \<noteq> None} = {1}"
    unfolding set_filter [symmetric] by simp
  have tk: "TokenAddr ` {r \<in> set ?tokenRows. TokenPrice r \<noteq> None} = {''0xBBB''}"
    unfolding set_filter [symmetric] by simp
  note t = GetGasAndTokenPrices_omits_nil [of example_service 10 ?gasRows ?tokenRows True]
  note t1 = t [THEN conjunct1, rule_format, OF conjI [OF gf tf]]
  note t2 = t [THEN conjunct2, rule_format]
  from t1 obtain g where "\<exists>t'. GetGasAndTokenPrices example_service True 10 = (Some g, Some t', None)
         \<and> fst ` set g = SourceChainSelector ` {r \<in> set ?gasRows. GasPrice r \<noteq> None}
         \<and> fst ` set t' = TokenAddr ` {r \<in> set ?tokenRows. TokenPrice r \<noteq> None}" ..
  then obtain t' where
    rk: "GetGasAndTokenPrices example_service True 10 = (Some g, Some t', None)
         \<and> fst ` set g = SourceChainSelector ` {r \<in> set ?gasRows. GasPrice r \<noteq> None}
         \<and> fst ` set t' = TokenAddr ` {r \<in> set ?tokenRows. TokenPrice r \<noteq> None}" ..
  note r = rk [THEN conjunct1]
  note k1 = trans [OF rk [THEN conjunct2, THEN conjunct1] gk]
  note k2 = trans [OF rk [THEN conjunct2, THEN conjunct2] tk]
  from t2 [OF r] have n: "None \<notin> snd ` set g \<and> None \<notin> snd ` set t'"
    by (elim exE conjE) simp
  from r k1 k2 n
  have "GetGasAndTokenPrices example_service True 10 = (Some g, Some t', None)
         \<and> fst ` set g = {1} \<and> fst ` set t' = {''0xBBB''}
         \<and> None \<notin> snd ` set g \<and> None \<notin> snd ` set t'"
    by (intro conjI) (erule conjunct1 conjunct2 | assumption)+
  then have "\<exists>g t. GetGasAndTokenPrices example_service True 10 = (Some g, Some t, None)
         \<and> fst ` set g = {1} \<and> fst ` set t = {''0xBBB''}
         \<and> None \<notin> snd ` set g \<and> None \<notin> snd ` set t"
    by (intro exI)
  with gf tf show ?thesis by (intro conjI)
qed

text \<open>
  C5. If the gas price fetch or the token price fetch fails, \<open>GetGasAndTokenPrices\<close>
  returns nil for both maps together with an error, which is the wrapped error of a
  fetch that failed.
\<close>

theorem GetGasAndTokenPrices_fail_fast:
  "(\<exists>e. GetGasPricesByDestChain (orm p) d = Inl e) \<or> (\<exists>e. GetTokenPricesByDestChain (orm p) d = Inl e)
   \<Longrightarrow> \<exists>err. GetGasAndTokenPrices p gasFirst d = (None, None, Some err)
          \<and> (err \<in> {Wrap ''failed to get gas prices from db'' (Msg e) | e.
                       GetGasPricesByDestChain (orm p) d = Inl e}
               \<union> {Wrap ''failed to get token prices from db'' (Msg e) | e.
                       GetTokenPricesByDestChain (orm p) d = Inl e})"
proof -
  assume h: "(\<exists>e. GetGasPricesByDestChain (orm p) d = Inl e) \<or> (\<exists>e. GetTokenPricesByDestChain (orm p) d = Inl e)"
  show ?thesis
  proof (cases "GetGasPricesByDestChain (orm p) d")
    case gl: (Inl e1)
    show ?thesis
    proof (cases "GetTokenPricesByDestChain (orm p) d")
      case (Inl e2)
      with gl show ?thesis
        by (cases gasFirst) (simp_all add: GetGasAndTokenPrices_def errgroup_Wait_def)
    next
      case (Inr rows)
      with gl show ?thesis
        by (simp add: GetGasAndTokenPrices_def errgroup_Wait_def)
    qed
  next
    case gr: (Inr rows)
    with h obtain e2 where "GetTokenPricesByDestChain (orm p) d = Inl e2" by auto
    with gr show ?thesis
      by (simp add: GetGasAndTokenPrices_def errgroup_Wait_def)
  qed
qed

theorem GetGasAndTokenPrices_fail_fast_witness:
  "GetGasPricesByDestChain
     (orm (example_service\<lparr>orm := example_orm\<lparr>GetGasPricesByDestChain := (\<lambda>d. Inl ''db down'')\<rparr>\<rparr>))
     10 = Inl ''db down''
   \<and> (\<exists>err. GetGasAndTokenPrices
                (example_service\<lparr>orm := example_orm\<lparr>GetGasPricesByDestChain := (\<lambda>d. Inl ''db down'')\<rparr>\<rparr>)
                False 10 = (None, None, Some err))"
proof -
  let ?q = "example_service\<lparr>orm := example_orm\<lparr>GetGasPricesByDestChain := (\<lambda>d. Inl ''db down'')\<rparr>\<rparr>"
  have h: "GetGasPricesByDestChain (orm ?q) 10 = Inl ''db down''"
    by simp
  then have "(\<exists>e. GetGasPricesByDestChain (orm ?q) 10 = Inl e)
               \<or> (\<exists>e. GetTokenPricesByDestChain (orm ?q) 10 = Inl e)"
    by (intro disjI1 exI)
  from GetGasAndTokenPrices_fail_fast [OF this, of False]
  obtain err where "GetGasAndTokenPrices ?q False 10 = (None, None, Some err)"
    by (elim exE conjE)
  then have "\<exists>err. GetGasAndTokenPrices ?q False 10 = (None, None, Some err)" ..
  with h show ?thesis by (intro conjI)
qed

subsection \<open>Token price observation\<close>

lemma wrap_Panic_iff: "wrap s e = Panic \<longleftrightarrow> e = Panic"
  by (cases e) simp_all

lemma big_Div_Some: "y \<noteq> 0 \<Longrightarrow> \<exists>q. big_Div x y = Some q"
  by (simp add: big_Div_def Let_def)

lemma calculateUsd_no_panic: "\<exists>q. calculateUsdPer1e18TokenAmount (Some x) d = Inr q"
proof -
  have "big_Exp 10 (uint d) \<noteq> 0" by (simp add: big_Exp_uint)
  from big_Div_Some [OF this]
  obtain q where "big_Div (x * 1000000000000000000) (big_Exp 10 (uint d)) = Some q"
    by blast
  then show ?thesis by (simp add: calculateUsdPer1e18TokenAmount_def)
qed

lemma list_ex_nil_iff: "list_ex (\<lambda>(tokenID, price). price = None) ws \<longleftrightarrow> None \<in> snd ` set ws"
  by (induction ws) auto

lemma convertPrices_no_panic:
  "None \<notin> snd ` set raw \<Longrightarrow> i + length toks \<le> length decs \<Longrightarrow>
     convertPrices dest raw decs toks i acc \<noteq> Inl Panic"
proof (induction toks arbitrary: i acc)
  case Nil
  then show ?case by simp
next
  case (Cons t rest)
  show ?case
  proof (cases "map_of raw \<lparr>TokenAddress = t, ChainSelector = dest\<rparr>")
    case None
    then show ?thesis by simp
  next
    case (Some pr)
    then have "pr \<in> snd ` set raw" by (force dest: map_of_SomeD)
    with Cons.prems(1) obtain x where x: "pr = Some x" by (cases pr) auto
    obtain q where q: "calculateUsdPer1e18TokenAmount (Some x) (decs ! i) = Inr q"
      using calculateUsd_no_panic by blast
    have i: "i < length decs" using Cons.prems(2) by simp
    have "convertPrices dest raw decs rest (Suc i) (AList.update t (Some q) acc) \<noteq> Inl Panic"
      using Cons.IH [OF Cons.prems(1)] Cons.prems(2) by simp
    with Some x q i show ?thesis by simp
  qed
qed

lemma convertPrices_nil_free:
  "convertPrices dest raw decs toks i acc = Inr res \<Longrightarrow> None \<notin> snd ` set acc \<Longrightarrow>
     None \<notin> snd ` set res"
proof (induction toks arbitrary: i acc)
  case Nil
  then show ?case by simp
next
  case (Cons t rest)
  from Cons.prems(1) obtain pr q where
    rec: "convertPrices dest raw decs rest (Suc i) (AList.update t (Some q) acc) = Inr res"
    by (auto simp: Let_def split: option.splits if_splits sum.splits)
  from Cons.IH [OF rec update_nil_free [OF Cons.prems(2)]] show ?case .
qed

lemma convertPrices_result:
  "convertPrices dest raw decs toks i acc = Inr res \<Longrightarrow> distinct toks \<Longrightarrow>
     fst ` set res = fst ` set acc \<union> set toks
     \<and> (\<forall>a. a \<notin> set toks \<longrightarrow> map_of res a = map_of acc a)
     \<and> (\<forall>j < length toks. \<exists>pr q.
           map_of raw \<lparr>TokenAddress = toks ! j, ChainSelector = dest\<rparr> = Some pr
           \<and> calculateUsdPer1e18TokenAmount pr (decs ! (i + j)) = Inr q
           \<and> map_of res (toks ! j) = Some (Some q))"
proof (induction toks arbitrary: i acc)
  case Nil
  then show ?case by simp
next
  case (Cons t rest)
  from Cons.prems(1) obtain pr where pr: "map_of raw \<lparr>TokenAddress = t, ChainSelector = dest\<rparr> = Some pr"
    by (cases "map_of raw \<lparr>TokenAddress = t, ChainSelector = dest\<rparr>") auto
  from Cons.prems(1) pr have i: "i < length decs"
    by (auto split: if_splits)
  from Cons.prems(1) pr i obtain q where q: "calculateUsdPer1e18TokenAmount pr (decs ! i) = Inr q"
    by (cases "calculateUsdPer1e18TokenAmount pr (decs ! i)") auto
  let ?acc = "AList.update t (Some q) acc"
  from Cons.prems(1) pr i q have rec: "convertPrices dest raw decs rest (Suc i) ?acc = Inr res"
    by simp
  from Cons.prems(2) have d: "distinct rest" and t: "t \<notin> set rest" by simp_all
  note IH = Cons.IH [OF rec d]
  have keys: "fst ` set res = fst ` set acc \<union> set (t # rest)"
  proof -
    from IH have "fst ` set res = fst ` set ?acc \<union> set rest" by blast
    then show ?thesis by (simp add: dom_update)
  qed
  have other: "\<forall>a. a \<notin> set (t # rest) \<longrightarrow> map_of res a = map_of acc a"
    using IH by (simp add: update_conv')
  have t_val: "map_of res t = Some (Some q)"
    using IH t by (simp add: update_conv')
  have idx: "\<forall>j < length (t # rest). \<exists>pr q.
           map_of raw \<lparr>TokenAddress = (t # rest) ! j, ChainSelector = dest\<rparr> = Some pr
           \<and> calculateUsdPer1e18TokenAmount pr (decs ! (i + j)) = Inr q
           \<and> map_of res ((t # rest) ! j) = Some (Some q)"
  proof (intro allI impI)
    fix j assume j: "j < length (t # rest)"
    show "\<exists>pr q.
           map_of raw \<lparr>TokenAddress = (t # rest) ! j, ChainSelector = dest\<rparr> = Some pr
           \<and> calculateUsdPer1e18TokenAmount pr (decs ! (i + j)) = Inr q
           \<and> map_of res ((t # rest) ! j) = Some (Some q)"
    proof (cases j)
      case 0
      with pr q t_val show ?thesis by simp
    next
      case (Suc k)
      with j have "k < length rest" by simp
      with IH Suc show ?thesis by simp
    qed
  qed
  from keys other idx show ?case by blast
qed

lemma sortedDestTokens_eq:
  "sortedDestTokens dest ws
     = sort (map TokenAddress (filter (\<lambda>k. ChainSelector k = dest) (map fst ws)))"
  by (induction ws) (auto simp: sortedDestTokens_def)

lemma set_sortedDestTokens:
  "set (sortedDestTokens dest ws)
     = {a. \<lparr>TokenAddress = a, ChainSelector = dest\<rparr> \<in> fst ` set ws}"
proof -
  have "\<And>k. ChainSelector k = dest \<Longrightarrow> \<lparr>TokenAddress = TokenAddress k, ChainSelector = dest\<rparr> = k"
    by simp
  then show ?thesis
    by (auto simp: sortedDestTokens_eq image_iff) force+
qed

lemma distinct_sortedDestTokens:
  "distinct (map fst ws) \<Longrightarrow> distinct (sortedDestTokens dest ws)"
proof -
  assume d: "distinct (map fst ws)"
  have "inj_on TokenAddress (set (filter (\<lambda>k. ChainSelector k = dest) (map fst ws)))"
    by (rule inj_onI) (auto intro: TokenID.equality)
  with d show ?thesis
    by (simp add: sortedDestTokens_eq distinct_map)
qed

lemma sorted_sortedDestTokens: "sorted (sortedDestTokens dest ws)"
  by (simp add: sortedDestTokens_def)

lemma backfill_distinct:
  "backfillDestNative p fetched = Inr ws \<Longrightarrow> distinct (map fst fetched) \<Longrightarrow> distinct (map fst ws)"
  by (auto simp: backfillDestNative_def Let_def distinct_update split: sum.splits option.splits)

lemma backfill_no_panic:
  "destPriceRegistryReader p = Some reader \<Longrightarrow> backfillDestNative p fetched \<noteq> Inl Panic"
  by (auto simp: backfillDestNative_def findMissingDestNativeTokenPrice_def
        GetDestinationTokens_def Let_def wrap_Panic_iff
      split: sum.splits option.splits if_splits)

lemma observeToken_InrD:
  "observeTokenPriceUpdates p = Inr res \<Longrightarrow>
   \<exists>reader fetched ws decs.
     destPriceRegistryReader p = Some reader
     \<and> GetJobSpecTokenPricesUSD (priceGetter p) = Inr fetched
     \<and> backfillDestNative p fetched = Inr ws
     \<and> None \<notin> snd ` set ws
     \<and> GetTokensDecimals reader (sortedDestTokens (destChainSelector p) ws) = Inr decs
     \<and> length decs = length (sortedDestTokens (destChainSelector p) ws)
     \<and> convertPrices (destChainSelector p) ws decs
          (sortedDestTokens (destChainSelector p) ws) 0 [] = Inr res"
  by (auto simp: observeTokenPriceUpdates_def Let_def list_ex_nil_iff
      split: option.splits sum.splits if_splits)

lemma observeToken_no_panic: "observeTokenPriceUpdates p \<noteq> Inl Panic"
proof (cases "destPriceRegistryReader p")
  case None
  then show ?thesis by (simp add: observeTokenPriceUpdates_def)
next
  case (Some reader)
  show ?thesis
  proof (cases "GetJobSpecTokenPricesUSD (priceGetter p)")
    case (Inl e)
    with Some show ?thesis by (simp add: observeTokenPriceUpdates_def)
  next
    case (Inr fetched)
    show ?thesis
    proof (cases "backfillDestNative p fetched")
      case (Inl e)
      with backfill_no_panic [OF Some, of fetched] have "e \<noteq> Panic" by auto
      with Some Inr Inl show ?thesis by (simp add: observeTokenPriceUpdates_def)
    next
      case ws: (Inr ws)
      show ?thesis
      proof (cases "None \<in> snd ` set ws")
        case True
        with Some Inr ws show ?thesis
          by (simp add: observeTokenPriceUpdates_def list_ex_nil_iff)
      next
        case False
        show ?thesis
        proof (cases "GetTokensDecimals reader (sortedDestTokens (destChainSelector p) ws)")
          case (Inl e)
          with Some Inr ws False show ?thesis
            by (simp add: observeTokenPriceUpdates_def list_ex_nil_iff)
        next
          case decs: (Inr decs)
          show ?thesis
          proof (cases "length decs = length (sortedDestTokens (destChainSelector p) ws)")
            case True
            then have "convertPrices (destChainSelector p) ws decs
                         (sortedDestTokens (destChainSelector p) ws) 0 [] \<noteq> Inl Panic"
              using convertPrices_no_panic [OF False, of 0] by simp
            with Some Inr ws False decs True show ?thesis
              by (simp add: observeTokenPriceUpdates_def list_ex_nil_iff)
          next
            case ne: False
            with Some Inr ws False decs show ?thesis
              by (simp add: observeTokenPriceUpdates_def list_ex_nil_iff)
          qed
        qed
      qed
    qed
  qed
qed

text \<open>
  C3. Let the job spec prices have pairwise distinct TokenIDs, as the keys of a map do.
  When the token price observation succeeds, the registry reader is set and the working
  set after the backfill exists; the decimals used are the reader's answer for the
  addresses of the destination-chain TokenIDs of that working set, sorted ascending
  without repetition, one per address; the keys of the result are exactly these
  addresses; and each address maps to the converter's result for its working-set price
  and the decimals at its position.
\<close>

theorem observeTokenPriceUpdates_result:
  assumes "observeTokenPriceUpdates p = Inr res"
    and "GetJobSpecTokenPricesUSD (priceGetter p) = Inr fetched"
    and "distinct (map fst fetched)"
  shows "\<exists>reader ws decs tokens.
     destPriceRegistryReader p = Some reader
     \<and> backfillDestNative p fetched = Inr ws
     \<and> tokens = sortedDestTokens (destChainSelector p) ws
     \<and> set tokens = {a. \<lparr>TokenAddress = a, ChainSelector = destChainSelector p\<rparr> \<in> fst ` set ws}
     \<and> sorted tokens \<and> distinct tokens
     \<and> GetTokensDecimals reader tokens = Inr decs
     \<and> length decs = length tokens
     \<and> fst ` set res = set tokens
     \<and> (\<forall>i < length tokens. \<exists>price v.
            map_of ws \<lparr>TokenAddress = tokens ! i, ChainSelector = destChainSelector p\<rparr>
              = Some (Some price)
            \<and> calculateUsdPer1e18TokenAmount (Some price) (decs ! i) = Inr v
            \<and> map_of res (tokens ! i) = Some (Some v))"
proof -
  from observeToken_InrD [OF assms(1)] assms(2)
  obtain reader ws decs where
    reader: "destPriceRegistryReader p = Some reader"
    and ws: "backfillDestNative p fetched = Inr ws"
    and nonnil: "None \<notin> snd ` set ws"
    and decs: "GetTokensDecimals reader (sortedDestTokens (destChainSelector p) ws) = Inr decs"
    and len: "length decs = length (sortedDestTokens (destChainSelector p) ws)"
    and conv: "convertPrices (destChainSelector p) ws decs
                 (sortedDestTokens (destChainSelector p) ws) 0 [] = Inr res"
    by auto
  let ?tokens = "sortedDestTokens (destChainSelector p) ws"
  have dist: "distinct ?tokens"
    using backfill_distinct [OF ws assms(3)] by (rule distinct_sortedDestTokens)
  note r = convertPrices_result [OF conv dist]
  have keys: "fst ` set res = set ?tokens"
    using r by simp
  have vals: "\<forall>i < length ?tokens. \<exists>price v.
            map_of ws \<lparr>TokenAddress = ?tokens ! i, ChainSelector = destChainSelector p\<rparr>
              = Some (Some price)
            \<and> calculateUsdPer1e18TokenAmount (Some price) (decs ! i) = Inr v
            \<and> map_of res (?tokens ! i) = Some (Some v)"
  proof (intro allI impI)
    fix i assume i: "i < length ?tokens"
    note idx = r [THEN conjunct2, THEN conjunct2, rule_format, OF i]
    then obtain pr q where
      pr: "map_of ws \<lparr>TokenAddress = ?tokens ! i, ChainSelector = destChainSelector p\<rparr> = Some pr"
      and q: "calculateUsdPer1e18TokenAmount pr (decs ! i) = Inr q"
      and m: "map_of res (?tokens ! i) = Some (Some q)"
      by auto
    from pr have "pr \<in> snd ` set ws" by (force dest: map_of_SomeD)
    with nonnil obtain price where "pr = Some price" by (cases pr) auto
    with pr q m show "\<exists>price v.
            map_of ws \<lparr>TokenAddress = ?tokens ! i, ChainSelector = destChainSelector p\<rparr>
              = Some (Some price)
            \<and> calculateUsdPer1e18TokenAmount (Some price) (decs ! i) = Inr v
            \<and> map_of res (?tokens ! i) = Some (Some v)"
      by simp
  qed
  show ?thesis
    by (intro exI conjI)
       (rule reader ws refl set_sortedDestTokens sorted_sortedDestTokens dist decs len keys vals)+
qed

theorem observeTokenPriceUpdates_result_witness:
  "observeTokenPriceUpdates example_service
     = Inr [(''0xAAA'', Some 2000000000000000000),
            (''0xBBB'', Some 1000000000000000000000000000000)]
   \<and> GetJobSpecTokenPricesUSD (priceGetter example_service) = Inr example_prices
   \<and> distinct (map fst example_prices)
   \<and> fst ` set [(''0xAAA'', Some (2000000000000000000 :: int)),
                 (''0xBBB'', Some 1000000000000000000000000000000)]
       = {a. \<lparr>TokenAddress = a, ChainSelector = destChainSelector example_service\<rparr>
               \<in> fst ` set example_backfilled}"
proof -
  let ?res = "[(''0xAAA'', Some (2000000000000000000 :: int)),
               (''0xBBB'', Some 1000000000000000000000000000000)]"
  have a: "observeTokenPriceUpdates example_service = Inr ?res"
    by code_simp
  have b: "GetJobSpecTokenPricesUSD (priceGetter example_service) = Inr example_prices"
    by (simp add: example_service_def example_getter_def)
  have c: "distinct (map fst example_prices)"
    by (simp add: example_prices_def)
  have bf: "backfillDestNative example_service example_prices = Inr example_backfilled"
    by code_simp
  from observeTokenPriceUpdates_result [OF a b c]
  obtain ws tokens where
    ws: "backfillDestNative example_service example_prices = Inr ws"
    and tokens: "set tokens = {a. \<lparr>TokenAddress = a, ChainSelector = destChainSelector example_service\<rparr>
                                   \<in> fst ` set ws}"
    and keys: "fst ` set ?res = set tokens"
    by (elim exE conjE)
  from ws bf have "ws = example_backfilled" by simp
  with tokens keys have d: "fst ` set ?res
       = {a. \<lparr>TokenAddress = a, ChainSelector = destChainSelector example_service\<rparr>
               \<in> fst ` set example_backfilled}"
    by (simp only:)
  from a b c d show ?thesis by (intro conjI)
qed

lemma runToken_no_panic: "fst (runTokenPriceUpdate p) \<noteq> Some Panic"
proof (cases "destPriceRegistryReader p")
  case None
  then show ?thesis by (simp add: runTokenPriceUpdate_def)
next
  case (Some reader)
  show ?thesis
  proof (cases "observeTokenPriceUpdates p")
    case (Inl e)
    with observeToken_no_panic [of p] have "e \<noteq> Panic" by auto
    with Some Inl show ?thesis by (simp add: runTokenPriceUpdate_def wrap_Panic_iff)
  next
    case (Inr res)
    with Some show ?thesis
      by (cases "UpsertTokenPricesForDestChain (orm p) (destChainSelector p)
                   (sort_key TokenAddr (map (\<lambda>(token, price). \<lparr>TokenAddr = token, TokenPrice = price\<rparr>) res))
                   (tokenUpdateInterval p)")
         (simp_all add: runTokenPriceUpdate_def writeTokenPricesToDB_def)
  qed
qed

lemma runToken_observe_failed:
  "destPriceRegistryReader p = Some reader \<Longrightarrow> observeTokenPriceUpdates p = Inl e \<Longrightarrow>
   runTokenPriceUpdate p = (Some (wrap ''failed to observe token price updates'' e), p)"
  by (simp add: runTokenPriceUpdate_def)

lemma observeToken_mismatch:
  "destPriceRegistryReader p = Some reader \<Longrightarrow>
   GetJobSpecTokenPricesUSD (priceGetter p) = Inr fetched \<Longrightarrow>
   backfillDestNative p fetched = Inr ws \<Longrightarrow>
   None \<notin> snd ` set ws \<Longrightarrow>
   GetTokensDecimals reader (sortedDestTokens (destChainSelector p) ws) = Inr decs \<Longrightarrow>
   length decs \<noteq> length (sortedDestTokens (destChainSelector p) ws) \<Longrightarrow>
   observeTokenPriceUpdates p = Inl (Msg ''mismatched token decimals and tokens'')"
  by (simp add: observeTokenPriceUpdates_def list_ex_nil_iff)

text \<open>
  C8. When the decimals returned for the sorted destination tokens differ in number from
  the tokens, the observation returns the error "mismatched token decimals and tokens",
  and the cycle reports it and writes nothing. The observation and the cycle never
  panic. When the observation succeeds, the decimals were as many as the tokens, and the
  conversion loop ran on these two lists from index 0.
\<close>

theorem observeTokenPriceUpdates_decimals_mismatch:
  "(destPriceRegistryReader p = Some reader
      \<and> GetJobSpecTokenPricesUSD (priceGetter p) = Inr fetched
      \<and> backfillDestNative p fetched = Inr ws
      \<and> None \<notin> snd ` set ws
      \<and> GetTokensDecimals reader (sortedDestTokens (destChainSelector p) ws) = Inr decs
      \<and> length decs \<noteq> length (sortedDestTokens (destChainSelector p) ws) \<longrightarrow>
      observeTokenPriceUpdates p = Inl (Msg ''mismatched token decimals and tokens'')
      \<and> runTokenPriceUpdate p
          = (Some (Wrap ''failed to observe token price updates''
                     (Msg ''mismatched token decimals and tokens'')), p))
   \<and> observeTokenPriceUpdates p \<noteq> Inl Panic
   \<and> fst (runTokenPriceUpdate p) \<noteq> Some Panic
   \<and> (\<forall>res. observeTokenPriceUpdates p = Inr res \<longrightarrow>
         (\<exists>reader ws decs.
            destPriceRegistryReader p = Some reader
            \<and> GetTokensDecimals reader (sortedDestTokens (destChainSelector p) ws) = Inr decs
            \<and> length decs = length (sortedDestTokens (destChainSelector p) ws)
            \<and> convertPrices (destChainSelector p) ws decs
                 (sortedDestTokens (destChainSelector p) ws) 0 [] = Inr res))"
proof (intro conjI impI allI)
  assume h: "destPriceRegistryReader p = Some reader
      \<and> GetJobSpecTokenPricesUSD (priceGetter p) = Inr fetched
      \<and> backfillDestNative p fetched = Inr ws
      \<and> None \<notin> snd ` set ws
      \<and> GetTokensDecimals reader (sortedDestTokens (destChainSelector p) ws) = Inr decs
      \<and> length decs \<noteq> length (sortedDestTokens (destChainSelector p) ws)"
  then show e: "observeTokenPriceUpdates p = Inl (Msg ''mismatched token decimals and tokens'')"
    using observeToken_mismatch by blast
  from h have "destPriceRegistryReader p = Some reader" by blast
  from runToken_observe_failed [OF this e]
  show "runTokenPriceUpdate p
          = (Some (Wrap ''failed to observe token price updates''
                     (Msg ''mismatched token decimals and tokens'')), p)"
    by simp
next
  show "observeTokenPriceUpdates p \<noteq> Inl Panic" by (rule observeToken_no_panic)
next
  show "fst (runTokenPriceUpdate p) \<noteq> Some Panic" by (rule runToken_no_panic)
next
  fix res assume "observeTokenPriceUpdates p = Inr res"
  from observeToken_InrD [OF this]
  show "\<exists>reader ws decs.
            destPriceRegistryReader p = Some reader
            \<and> GetTokensDecimals reader (sortedDestTokens (destChainSelector p) ws) = Inr decs
            \<and> length decs = length (sortedDestTokens (destChainSelector p) ws)
            \<and> convertPrices (destChainSelector p) ws decs
                 (sortedDestTokens (destChainSelector p) ws) 0 [] = Inr res"
    by blast
qed

theorem observeTokenPriceUpdates_decimals_mismatch_witness:
  "destPriceRegistryReader (example_service\<lparr>destPriceRegistryReader := Some example_reader_short\<rparr>)
     = Some example_reader_short
   \<and> GetJobSpecTokenPricesUSD
        (priceGetter (example_service\<lparr>destPriceRegistryReader := Some example_reader_short\<rparr>))
       = Inr example_prices
   \<and> backfillDestNative (example_service\<lparr>destPriceRegistryReader := Some example_reader_short\<rparr>)
        example_prices = Inr example_backfilled
   \<and> None \<notin> snd ` set example_backfilled
   \<and> GetTokensDecimals example_reader_short
        (sortedDestTokens
           (destChainSelector (example_service\<lparr>destPriceRegistryReader := Some example_reader_short\<rparr>))
           example_backfilled) = Inr [6]
   \<and> length [6 :: 8 word]
       \<noteq> length (sortedDestTokens
           (destChainSelector (example_service\<lparr>destPriceRegistryReader := Some example_reader_short\<rparr>))
           example_backfilled)
   \<and> observeTokenPriceUpdates (example_service\<lparr>destPriceRegistryReader := Some example_reader_short\<rparr>)
       = Inl (Msg ''mismatched token decimals and tokens'')"
proof -
  let ?q = "example_service\<lparr>destPriceRegistryReader := Some example_reader_short\<rparr>"
  have h1: "destPriceRegistryReader ?q = Some example_reader_short"
    by simp
  have h2: "GetJobSpecTokenPricesUSD (priceGetter ?q) = Inr example_prices"
    by (simp add: example_service_def example_getter_def)
  have h3: "backfillDestNative ?q example_prices = Inr example_backfilled"
    by code_simp
  have h4: "None \<notin> snd ` set example_backfilled"
    by (simp add: example_backfilled_def)
  have h5: "GetTokensDecimals example_reader_short
              (sortedDestTokens (destChainSelector ?q) example_backfilled) = Inr [6]"
    by (simp add: example_reader_short_def)
  have h6: "length [6 :: 8 word]
              \<noteq> length (sortedDestTokens (destChainSelector ?q) example_backfilled)"
    by code_simp
  note t = observeTokenPriceUpdates_decimals_mismatch
             [of ?q example_reader_short example_prices example_backfilled "[6]"]
  note r = t [THEN conjunct1, THEN mp,
              OF conjI [OF h1 conjI [OF h2 conjI [OF h3 conjI [OF h4 conjI [OF h5 h6]]]]],
              THEN conjunct1]
  from h1 h2 h3 h4 h5 h6 r show ?thesis by (intro conjI)
qed

subsection \<open>Refresh cycles\<close>

lemma observeGas_no_panic: "observeGasPriceUpdates p \<noteq> Inl Panic"
  by (simp add: observeGasPriceUpdates_def Let_def split: option.splits sum.splits)

lemma writeGas_frame:
  "\<exists>new. snd (writeGasPricesToDB p usd) = p\<lparr>upserts := upserts p @ new\<rparr>
         \<and> list_all nonNullUpsert new \<and> (usd = None \<longrightarrow> new = [])"
proof (cases usd)
  case None
  then have "snd (writeGasPricesToDB p usd) = p\<lparr>upserts := upserts p @ []\<rparr>"
    by (simp add: writeGasPricesToDB_def)
  with None show ?thesis by (intro exI [of _ "[]"]) simp
next
  case (Some v)
  let ?rows = "[\<lparr>SourceChainSelector = sourceChainSelector p, GasPrice = Some v\<rparr>]"
  from Some have "snd (writeGasPricesToDB p usd)
                    = p\<lparr>upserts := upserts p @ [UpsertGas (destChainSelector p) ?rows]\<rparr>"
    by (simp add: writeGasPricesToDB_def Let_def)
  with Some show ?thesis
    by (intro exI [of _ "[UpsertGas (destChainSelector p) ?rows]"]) simp
qed

lemma writeGas_no_panic: "fst (writeGasPricesToDB p usd) \<noteq> Some Panic"
  by (cases usd) (auto simp: writeGasPricesToDB_def Let_def)

lemma runGas_cases:
  "runGasPriceUpdate p = (None, p)
   \<or> (\<exists>e. observeGasPriceUpdates p = Inl e
          \<and> runGasPriceUpdate p = (Some (wrap ''failed to observe gas price updates'' e), p))
   \<or> (\<exists>usd. observeGasPriceUpdates p = Inr usd
          \<and> snd (runGasPriceUpdate p) = snd (writeGasPricesToDB p usd)
          \<and> (fst (runGasPriceUpdate p) = None
               \<or> (\<exists>e. fst (writeGasPricesToDB p usd) = Some e
                      \<and> fst (runGasPriceUpdate p) = Some (wrap ''failed to write gas prices to db'' e))))"
proof (cases "gasPriceEstimator p")
  case None
  then show ?thesis by (simp add: runGasPriceUpdate_def)
next
  case (Some est)
  show ?thesis
  proof (cases "observeGasPriceUpdates p")
    case (Inl e)
    with Some show ?thesis by (simp add: runGasPriceUpdate_def)
  next
    case (Inr usd)
    obtain err p' where w: "writeGasPricesToDB p usd = (err, p')"
      by (cases "writeGasPricesToDB p usd")
    with Some Inr show ?thesis
      by (cases err) (simp_all add: runGasPriceUpdate_def)
  qed
qed

lemma runGas_frame:
  "\<exists>new. snd (runGasPriceUpdate p) = p\<lparr>upserts := upserts p @ new\<rparr>
         \<and> list_all nonNullUpsert new"
proof -
  have triv: "\<And>q. snd q = p \<Longrightarrow> \<exists>new. snd q = p\<lparr>upserts := upserts p @ new\<rparr>
         \<and> list_all nonNullUpsert new"
    by (intro exI [of _ "[]"]) simp
  from runGas_cases [of p] show ?thesis
  proof (elim disjE exE conjE)
    assume "runGasPriceUpdate p = (None, p)"
    then show ?thesis by (intro triv) simp
  next
    fix e assume "runGasPriceUpdate p = (Some (wrap ''failed to observe gas price updates'' e), p)"
    then show ?thesis by (intro triv) simp
  next
    fix usd assume "snd (runGasPriceUpdate p) = snd (writeGasPricesToDB p usd)"
    with writeGas_frame [of p usd] show ?thesis by auto
  next
    fix usd e assume "snd (runGasPriceUpdate p) = snd (writeGasPricesToDB p usd)"
    with writeGas_frame [of p usd] show ?thesis by auto
  qed
qed

lemma runGas_no_panic: "fst (runGasPriceUpdate p) \<noteq> Some Panic"
proof -
  from runGas_cases [of p] show ?thesis
  proof (elim disjE exE conjE)
    assume "runGasPriceUpdate p = (None, p)"
    then show ?thesis by simp
  next
    fix e assume "observeGasPriceUpdates p = Inl e"
      and r: "runGasPriceUpdate p = (Some (wrap ''failed to observe gas price updates'' e), p)"
    with observeGas_no_panic [of p] have "e \<noteq> Panic" by auto
    with r show ?thesis by (simp add: wrap_Panic_iff)
  next
    fix usd assume "fst (runGasPriceUpdate p) = None"
    then show ?thesis by simp
  next
    fix usd e assume "fst (writeGasPricesToDB p usd) = Some e"
      and r: "fst (runGasPriceUpdate p) = Some (wrap ''failed to write gas prices to db'' e)"
    with writeGas_no_panic [of p usd] have "e \<noteq> Panic" by auto
    with r show ?thesis by (simp add: wrap_Panic_iff)
  qed
qed

lemma runGas_nil_dropped:
  "observeGasPriceUpdates p = Inr None \<Longrightarrow> runGasPriceUpdate p = (None, p)"
  by (cases "gasPriceEstimator p") (simp_all add: runGasPriceUpdate_def writeGasPricesToDB_def)

lemma writeToken_frame:
  "None \<notin> snd ` set m \<Longrightarrow>
   \<exists>new. snd (writeTokenPricesToDB p (Some m)) = p\<lparr>upserts := upserts p @ new\<rparr>
         \<and> list_all nonNullUpsert new"
proof -
  assume m: "None \<notin> snd ` set m"
  let ?rows = "sort_key TokenAddr (map (\<lambda>(token, price). \<lparr>TokenAddr = token, TokenPrice = price\<rparr>) m)"
  let ?call = "UpsertToken (destChainSelector p) ?rows (tokenUpdateInterval p)"
  have "\<And>token price. (token, price) \<in> set m \<Longrightarrow> price \<noteq> None"
    using m by force
  then have "\<forall>r \<in> set ?rows. TokenPrice r \<noteq> None"
    by auto
  then have "list_all nonNullUpsert [?call]"
    by (simp add: list_all_iff)
  moreover have "snd (writeTokenPricesToDB p (Some m)) = p\<lparr>upserts := upserts p @ [?call]\<rparr>"
    by (simp add: writeTokenPricesToDB_def Let_def)
  ultimately show ?thesis by blast
qed

lemma observeToken_nil_free:
  "observeTokenPriceUpdates p = Inr res \<Longrightarrow> None \<notin> snd ` set res"
proof -
  assume "observeTokenPriceUpdates p = Inr res"
  from observeToken_InrD [OF this] obtain ws decs where
    "convertPrices (destChainSelector p) ws decs (sortedDestTokens (destChainSelector p) ws) 0 []
       = Inr res"
    by blast
  from convertPrices_nil_free [OF this] show ?thesis by simp
qed

lemma runToken_cases:
  "runTokenPriceUpdate p = (None, p)
   \<or> (\<exists>e. observeTokenPriceUpdates p = Inl e
          \<and> runTokenPriceUpdate p = (Some (wrap ''failed to observe token price updates'' e), p))
   \<or> (\<exists>res. observeTokenPriceUpdates p = Inr res
          \<and> snd (runTokenPriceUpdate p) = snd (writeTokenPricesToDB p (Some res)))"
proof (cases "destPriceRegistryReader p")
  case None
  then show ?thesis by (simp add: runTokenPriceUpdate_def)
next
  case (Some reader)
  show ?thesis
  proof (cases "observeTokenPriceUpdates p")
    case (Inl e)
    with Some show ?thesis by (simp add: runTokenPriceUpdate_def)
  next
    case (Inr res)
    obtain err p' where w: "writeTokenPricesToDB p (Some res) = (err, p')"
      by (cases "writeTokenPricesToDB p (Some res)")
    with Some Inr show ?thesis
      by (cases err) (simp_all add: runTokenPriceUpdate_def)
  qed
qed

lemma runToken_frame:
  "\<exists>new. snd (runTokenPriceUpdate p) = p\<lparr>upserts := upserts p @ new\<rparr>
         \<and> list_all nonNullUpsert new"
proof -
  have triv: "\<And>q. snd q = p \<Longrightarrow> \<exists>new. snd q = p\<lparr>upserts := upserts p @ new\<rparr>
         \<and> list_all nonNullUpsert new"
    by (intro exI [of _ "[]"]) simp
  from runToken_cases [of p] show ?thesis
  proof (elim disjE exE conjE)
    assume "runTokenPriceUpdate p = (None, p)"
    then show ?thesis by (intro triv) simp
  next
    fix e assume "runTokenPriceUpdate p = (Some (wrap ''failed to observe token price updates'' e), p)"
    then show ?thesis by (intro triv) simp
  next
    fix res assume "observeTokenPriceUpdates p = Inr res"
      and "snd (runTokenPriceUpdate p) = snd (writeTokenPricesToDB p (Some res))"
    with writeToken_frame [OF observeToken_nil_free, of p res p] show ?thesis by auto
  qed
qed

lemma observeToken_nil_price:
  "destPriceRegistryReader p = Some reader \<Longrightarrow>
   GetJobSpecTokenPricesUSD (priceGetter p) = Inr fetched \<Longrightarrow>
   backfillDestNative p fetched = Inr ws \<Longrightarrow>
   None \<in> snd ` set ws \<Longrightarrow>
   observeTokenPriceUpdates p = Inl (Msg ''token price is nil for token'')"
  by (simp add: observeTokenPriceUpdates_def list_ex_nil_iff)

lemma UpdateDynamicConfig_eq:
  "UpdateDynamicConfig p newEstimator newReader
     = (None, snd (runTokenPriceUpdate (snd (runGasPriceUpdate
          (p\<lparr>gasPriceEstimator := newEstimator, destPriceRegistryReader := newReader\<rparr>)))))"
proof -
  let ?p1 = "p\<lparr>gasPriceEstimator := newEstimator, destPriceRegistryReader := newReader\<rparr>"
  obtain e1 p2 where g: "runGasPriceUpdate ?p1 = (e1, p2)"
    by (cases "runGasPriceUpdate ?p1")
  obtain e2 p3 where t: "runTokenPriceUpdate p2 = (e2, p3)"
    by (cases "runTokenPriceUpdate p2")
  from runGas_no_panic [of ?p1] g have e1: "e1 \<noteq> Some Panic" by simp
  from runToken_no_panic [of p2] t have e2: "e2 \<noteq> Some Panic" by simp
  from g t e1 e2 show ?thesis
    by (simp add: UpdateDynamicConfig_def Let_def)
qed

text \<open>
  C6. \<open>UpdateDynamicConfig\<close> returns nil, whatever the two refresh cycles return: the
  service it leaves is the one the token price cycle leaves, run after the gas price
  cycle, run on the service with the estimator and the reader replaced; and that service
  holds the new estimator and the new reader.
\<close>

theorem UpdateDynamicConfig_returns_nil:
  "fst (UpdateDynamicConfig p newEstimator newReader) = None
   \<and> snd (UpdateDynamicConfig p newEstimator newReader)
       = snd (runTokenPriceUpdate (snd (runGasPriceUpdate
           (p\<lparr>gasPriceEstimator := newEstimator, destPriceRegistryReader := newReader\<rparr>))))
   \<and> gasPriceEstimator (snd (UpdateDynamicConfig p newEstimator newReader)) = newEstimator
   \<and> destPriceRegistryReader (snd (UpdateDynamicConfig p newEstimator newReader)) = newReader"
proof -
  let ?p1 = "p\<lparr>gasPriceEstimator := newEstimator, destPriceRegistryReader := newReader\<rparr>"
  let ?p2 = "snd (runGasPriceUpdate ?p1)"
  let ?p3 = "snd (runTokenPriceUpdate ?p2)"
  from runGas_frame [of ?p1] obtain new1 where p2: "?p2 = ?p1\<lparr>upserts := upserts ?p1 @ new1\<rparr>"
    by blast
  from runToken_frame [of ?p2] obtain new2 where p3: "?p3 = ?p2\<lparr>upserts := upserts ?p2 @ new2\<rparr>"
    by blast
  have "gasPriceEstimator ?p3 = gasPriceEstimator ?p2"
    by (subst p3) simp
  also have "\<dots> = gasPriceEstimator ?p1"
    by (subst p2) simp
  finally have est: "gasPriceEstimator ?p3 = newEstimator" by simp
  have "destPriceRegistryReader ?p3 = destPriceRegistryReader ?p2"
    by (subst p3) simp
  also have "\<dots> = destPriceRegistryReader ?p1"
    by (subst p2) simp
  finally have rdr: "destPriceRegistryReader ?p3 = newReader" by simp
  from est rdr show ?thesis
    by (simp add: UpdateDynamicConfig_eq)
qed

theorem UpdateDynamicConfig_returns_nil_witness:
  "fst (runTokenPriceUpdate
          (example_service\<lparr>gasPriceEstimator := Some example_estimator,
                            destPriceRegistryReader := Some example_reader_short\<rparr>))
     = Some (Wrap ''failed to observe token price updates''
               (Msg ''mismatched token decimals and tokens''))
   \<and> fst (UpdateDynamicConfig example_service (Some example_estimator) (Some example_reader_short))
       = None
   \<and> destPriceRegistryReader
        (snd (UpdateDynamicConfig example_service (Some example_estimator)
                (Some example_reader_short)))
       = Some example_reader_short"
proof -
  have f: "fst (runTokenPriceUpdate
          (example_service\<lparr>gasPriceEstimator := Some example_estimator,
                            destPriceRegistryReader := Some example_reader_short\<rparr>))
     = Some (Wrap ''failed to observe token price updates''
               (Msg ''mismatched token decimals and tokens''))"
    by code_simp
  note t = UpdateDynamicConfig_returns_nil
             [of example_service "Some example_estimator" "Some example_reader_short"]
  note a = t [THEN conjunct1]
  note b = t [THEN conjunct2, THEN conjunct2, THEN conjunct2]
  from f a b show ?thesis by (intro conjI)
qed

text \<open>
  C7. The upsert calls a gas price cycle, a token price cycle or a configuration update
  adds to those already made carry no nil price. A nil gas price observation makes the
  gas price cycle return without writing. A nil price in the working set after the
  backfill makes the token price cycle fail without writing.
\<close>

theorem upserts_non_null:
  "(\<exists>new. upserts (snd (runGasPriceUpdate p)) = upserts p @ new \<and> list_all nonNullUpsert new)
   \<and> (\<exists>new. upserts (snd (runTokenPriceUpdate p)) = upserts p @ new
          \<and> list_all nonNullUpsert new)
   \<and> (\<exists>new. upserts (snd (UpdateDynamicConfig p newEstimator newReader)) = upserts p @ new
          \<and> list_all nonNullUpsert new)
   \<and> (observeGasPriceUpdates p = Inr None \<longrightarrow> runGasPriceUpdate p = (None, p))
   \<and> (destPriceRegistryReader p = Some reader
        \<and> GetJobSpecTokenPricesUSD (priceGetter p) = Inr fetched
        \<and> backfillDestNative p fetched = Inr ws
        \<and> None \<in> snd ` set ws \<longrightarrow>
        runTokenPriceUpdate p
          = (Some (Wrap ''failed to observe token price updates''
                     (Msg ''token price is nil for token'')), p))"
proof -
  have gas: "\<And>q. \<exists>new. upserts (snd (runGasPriceUpdate q)) = upserts q @ new
                      \<and> list_all nonNullUpsert new"
  proof -
    fix q
    from runGas_frame [of q] obtain new where
      "snd (runGasPriceUpdate q) = q\<lparr>upserts := upserts q @ new\<rparr>" "list_all nonNullUpsert new"
      by blast
    then have "upserts (snd (runGasPriceUpdate q)) = upserts q @ new \<and> list_all nonNullUpsert new"
      by simp
    then show "\<exists>new. upserts (snd (runGasPriceUpdate q)) = upserts q @ new
                      \<and> list_all nonNullUpsert new" ..
  qed
  have token: "\<And>q. \<exists>new. upserts (snd (runTokenPriceUpdate q)) = upserts q @ new
                      \<and> list_all nonNullUpsert new"
  proof -
    fix q
    from runToken_frame [of q] obtain new where
      "snd (runTokenPriceUpdate q) = q\<lparr>upserts := upserts q @ new\<rparr>" "list_all nonNullUpsert new"
      by blast
    then have "upserts (snd (runTokenPriceUpdate q)) = upserts q @ new \<and> list_all nonNullUpsert new"
      by simp
    then show "\<exists>new. upserts (snd (runTokenPriceUpdate q)) = upserts q @ new
                      \<and> list_all nonNullUpsert new" ..
  qed
  have update: "\<exists>new. upserts (snd (UpdateDynamicConfig p newEstimator newReader)) = upserts p @ new
                  \<and> list_all nonNullUpsert new"
  proof -
    let ?p1 = "p\<lparr>gasPriceEstimator := newEstimator, destPriceRegistryReader := newReader\<rparr>"
    let ?p2 = "snd (runGasPriceUpdate ?p1)"
    from gas [of ?p1] obtain new1 where
      n1: "upserts ?p2 = upserts ?p1 @ new1" "list_all nonNullUpsert new1" by blast
    from token [of ?p2] obtain new2 where
      n2: "upserts (snd (runTokenPriceUpdate ?p2)) = upserts ?p2 @ new2" "list_all nonNullUpsert new2"
      by blast
    from n1 n2 have "upserts (snd (UpdateDynamicConfig p newEstimator newReader))
                       = upserts p @ (new1 @ new2) \<and> list_all nonNullUpsert (new1 @ new2)"
      by (simp add: UpdateDynamicConfig_eq)
    then show ?thesis ..
  qed
  have nil_gas: "observeGasPriceUpdates p = Inr None \<longrightarrow> runGasPriceUpdate p = (None, p)"
    by (simp add: runGas_nil_dropped)
  have nil_token: "destPriceRegistryReader p = Some reader
        \<and> GetJobSpecTokenPricesUSD (priceGetter p) = Inr fetched
        \<and> backfillDestNative p fetched = Inr ws
        \<and> None \<in> snd ` set ws \<longrightarrow>
        runTokenPriceUpdate p
          = (Some (Wrap ''failed to observe token price updates''
                     (Msg ''token price is nil for token'')), p)"
  proof
    assume h: "destPriceRegistryReader p = Some reader
        \<and> GetJobSpecTokenPricesUSD (priceGetter p) = Inr fetched
        \<and> backfillDestNative p fetched = Inr ws
        \<and> None \<in> snd ` set ws"
    then have "observeTokenPriceUpdates p = Inl (Msg ''token price is nil for token'')"
      by (elim conjE) (rule observeToken_nil_price)
    with h show "runTokenPriceUpdate p
          = (Some (Wrap ''failed to observe token price updates''
                     (Msg ''token price is nil for token'')), p)"
      by (simp add: runToken_observe_failed)
  qed
  from gas [of p] token [of p] update nil_gas nil_token show ?thesis
    by (intro conjI)
qed

theorem upserts_non_null_witness:
  "observeGasPriceUpdates
     (example_service\<lparr>gasPriceEstimator :=
        Some (example_estimator\<lparr>DenoteInUSD := (\<lambda>gas native. Inr None)\<rparr>)\<rparr>) = Inr None
   \<and> upserts (snd (runGasPriceUpdate
        (example_service\<lparr>gasPriceEstimator :=
           Some (example_estimator\<lparr>DenoteInUSD := (\<lambda>gas native. Inr None)\<rparr>)\<rparr>))) = []
   \<and> destPriceRegistryReader
        (example_service\<lparr>priceGetter :=
           example_getter\<lparr>GetJobSpecTokenPricesUSD := Inr example_prices_nil\<rparr>\<rparr>)
       = Some example_reader
   \<and> GetJobSpecTokenPricesUSD
        (priceGetter (example_service\<lparr>priceGetter :=
           example_getter\<lparr>GetJobSpecTokenPricesUSD := Inr example_prices_nil\<rparr>\<rparr>))
       = Inr example_prices_nil
   \<and> backfillDestNative
        (example_service\<lparr>priceGetter :=
           example_getter\<lparr>GetJobSpecTokenPricesUSD := Inr example_prices_nil\<rparr>\<rparr>)
        example_prices_nil = Inr example_prices_nil
   \<and> None \<in> snd ` set example_prices_nil
   \<and> upserts (snd (runTokenPriceUpdate
        (example_service\<lparr>priceGetter :=
           example_getter\<lparr>GetJobSpecTokenPricesUSD := Inr example_prices_nil\<rparr>\<rparr>))) = []
   \<and> (\<exists>new. upserts (snd (runTokenPriceUpdate example_service)) = upserts example_service @ new
          \<and> list_all nonNullUpsert new)"
proof -
  let ?q1 = "example_service\<lparr>gasPriceEstimator :=
               Some (example_estimator\<lparr>DenoteInUSD := (\<lambda>gas native. Inr None)\<rparr>)\<rparr>"
  let ?q2 = "example_service\<lparr>priceGetter :=
               example_getter\<lparr>GetJobSpecTokenPricesUSD := Inr example_prices_nil\<rparr>\<rparr>"
  have g: "observeGasPriceUpdates ?q1 = Inr None"
    by code_simp
  note t1 = upserts_non_null [of ?q1 None None example_reader "[]" "[]"]
  note r1 = t1 [THEN conjunct2, THEN conjunct2, THEN conjunct2, THEN conjunct1, THEN mp, OF g]
  have u1: "upserts (snd (runGasPriceUpdate ?q1)) = []"
    by (subst r1) (simp add: example_service_def)
  have h1: "destPriceRegistryReader ?q2 = Some example_reader"
    by (simp add: example_service_def)
  have h2: "GetJobSpecTokenPricesUSD (priceGetter ?q2) = Inr example_prices_nil"
    by simp
  have h3: "backfillDestNative ?q2 example_prices_nil = Inr example_prices_nil"
    by code_simp
  have h4: "None \<in> snd ` set example_prices_nil"
    by (simp add: example_prices_nil_def)
  note t2 = upserts_non_null [of ?q2 None None example_reader example_prices_nil example_prices_nil]
  note r2 = t2 [THEN conjunct2, THEN conjunct2, THEN conjunct2, THEN conjunct2, THEN mp,
                OF conjI [OF h1 conjI [OF h2 conjI [OF h3 h4]]]]
  have u2: "upserts (snd (runTokenPriceUpdate ?q2)) = []"
    by (subst r2) (simp add: example_service_def)
  note t3 = upserts_non_null [of example_service None None example_reader "[]" "[]"]
  note r3 = t3 [THEN conjunct2, THEN conjunct1]
  from g u1 h1 h2 h3 h4 u2 r3 show ?thesis by (intro conjI)
qed

end
